theory Spec2Isabelle
  imports Complex_Main "HOL-Library.Char_ord" "HOL-Library.List_Lexorder"
begin

section \<open>Strings and paths\<close>

text \<open>
  A Python \<open>str\<close> is modelled as a \<open>string\<close>; a \<open>char\<close> stands for the code point of the
  same number, so the model covers names made of code points below 256. Python orders
  strings by code point, which is the lexicographic order on \<open>char list\<close>.
\<close>

definition endswith :: "string \<Rightarrow> string \<Rightarrow> bool" where
  \<comment> \<open>\<open>s.endswith(suf)\<close>\<close>
  "endswith s suf \<longleftrightarrow> length suf \<le> length s \<and> drop (length s - length suf) s = suf"

definition basename :: "string \<Rightarrow> string" where
  \<comment> \<open>\<open>os.path.basename\<close> (posixpath): everything after the last slash\<close>
  "basename p = rev (takeWhile (\<lambda>c. c \<noteq> CHR ''/'') (rev p))"

definition path_join :: "string \<Rightarrow> string \<Rightarrow> string" where
  \<comment> \<open>\<open>os.path.join(a, b)\<close> (posixpath) for two components\<close>
  "path_join a b =
     (if b \<noteq> [] \<and> hd b = CHR ''/'' then b
      else if a = [] \<or> last a = CHR ''/'' then a @ b
      else a @ ''/'' @ b)"

section \<open>Dates\<close>

text \<open>
  A \<open>datetime.date\<close> is represented by its proleptic Gregorian ordinal
  (\<open>date.toordinal()\<close>, day 1 is 0001-01-01); Python orders dates chronologically, which
  is the order of the ordinals. The functions below are those of CPython's \<open>datetime\<close>.
\<close>

type_synonym date = int

definition is_leap :: "int \<Rightarrow> bool" where
  "is_leap y \<longleftrightarrow> y mod 4 = 0 \<and> (y mod 100 \<noteq> 0 \<or> y mod 400 = 0)"

definition days_in_month :: "int \<Rightarrow> int \<Rightarrow> int" where
  "days_in_month y m =
     (if m = 2 \<and> is_leap y then 29
      else [31, 28, 31, 30, 31, 30, 31, 31, 30, 31, 30, 31] ! nat (m - 1))"

definition days_before_year :: "int \<Rightarrow> int" where
  "days_before_year year =
     (let y = year - 1 in y * 365 + y div 4 - y div 100 + y div 400)"

definition days_before_month :: "int \<Rightarrow> int \<Rightarrow> int" where
  "days_before_month y m =
     [0, 31, 59, 90, 120, 151, 181, 212, 243, 273, 304, 334] ! nat (m - 1)
       + (if m > 2 \<and> is_leap y then 1 else 0)"

definition ymd2ord :: "int \<Rightarrow> int \<Rightarrow> int \<Rightarrow> int" where
  "ymd2ord y m d = days_before_year y + days_before_month y m + d"

definition make_date :: "int \<Rightarrow> int \<Rightarrow> int \<Rightarrow> date option" where
  \<comment> \<open>\<open>date(y, m, d)\<close>; \<open>None\<close> stands for the \<open>ValueError\<close> of an invalid date\<close>
  "make_date y m d =
     (if 1 \<le> y \<and> y \<le> 9999 \<and> 1 \<le> m \<and> m \<le> 12 \<and> 1 \<le> d \<and> d \<le> days_in_month y m
      then Some (ymd2ord y m d) else None)"

section \<open>The date token of a file name\<close>

text \<open>
  \<open>datetime.strptime(s, "%Y%m%d")\<close> matches \<open>s\<close> against the regular expression
  \<open>(\d\d\d\d)(1[0-2]|0[1-9]|[1-9])(3[0-1]|[1-2]\d|0[1-9]|[1-9]| [1-9])\<close>, takes the first
  match in the order of the alternatives, and fails when text remains after it.
  Each function below lists the matches of one group in that order, each with the rest of
  the input.
\<close>

definition between :: "char \<Rightarrow> char \<Rightarrow> char \<Rightarrow> bool" where
  "between lo hi c \<longleftrightarrow> lo \<le> c \<and> c \<le> hi"

definition is_digit :: "char \<Rightarrow> bool" where
  "is_digit c = between CHR ''0'' CHR ''9'' c"

definition alt2 :: "(char \<Rightarrow> bool) \<Rightarrow> (char \<Rightarrow> bool) \<Rightarrow> string \<Rightarrow> (string \<times> string) list" where
  "alt2 p q s = (case s of a # b # r \<Rightarrow> if p a \<and> q b then [([a, b], r)] else [] | _ \<Rightarrow> [])"

definition alt1 :: "(char \<Rightarrow> bool) \<Rightarrow> string \<Rightarrow> (string \<times> string) list" where
  "alt1 p s = (case s of a # r \<Rightarrow> if p a then [([a], r)] else [] | _ \<Rightarrow> [])"

definition re_Y :: "string \<Rightarrow> (string \<times> string) list" where
  "re_Y s = (if 4 \<le> length s \<and> list_all is_digit (take 4 s) then [(take 4 s, drop 4 s)] else [])"

definition re_m :: "string \<Rightarrow> (string \<times> string) list" where
  "re_m s = alt2 (\<lambda>c. c = CHR ''1'') (between CHR ''0'' CHR ''2'') s
          @ alt2 (\<lambda>c. c = CHR ''0'') (between CHR ''1'' CHR ''9'') s
          @ alt1 (between CHR ''1'' CHR ''9'') s"

definition re_d :: "string \<Rightarrow> (string \<times> string) list" where
  "re_d s = alt2 (\<lambda>c. c = CHR ''3'') (between CHR ''0'' CHR ''1'') s
          @ alt2 (between CHR ''1'' CHR ''2'') is_digit s
          @ alt2 (\<lambda>c. c = CHR ''0'') (between CHR ''1'' CHR ''9'') s
          @ alt1 (between CHR ''1'' CHR ''9'') s
          @ alt2 (\<lambda>c. c = CHR '' '') (between CHR ''1'' CHR ''9'') s"

definition re_match_Ymd :: "string \<Rightarrow> (string \<times> string \<times> string \<times> string) list" where
  \<comment> \<open>all the ways the expression matches a prefix, in backtracking order\<close>
  "re_match_Ymd s =
     concat (map (\<lambda>(y, r1). concat (map (\<lambda>(m, r2). map (\<lambda>(d, r3). (y, m, d, r3)) (re_d r2))
                                       (re_m r1)))
                 (re_Y s))"

definition py_int :: "string \<Rightarrow> int" where
  \<comment> \<open>\<open>int(s)\<close> on a matched group: decimal digits, a leading blank is stripped\<close>
  "py_int s = foldl (\<lambda>n c. 10 * n + (int (of_char c) - 48)) 0 (filter is_digit s)"

definition strptime_Ymd :: "string \<Rightarrow> date option" where
  \<comment> \<open>\<open>datetime.strptime(s, "%Y%m%d").date()\<close>; \<open>None\<close> stands for the \<open>ValueError\<close>\<close>
  "strptime_Ymd s =
     (case re_match_Ymd s of
        [] \<Rightarrow> None
      | (y, m, d, r) # _ \<Rightarrow> if r \<noteq> [] then None else make_date (py_int y) (py_int m) (py_int d))"

definition parse_fname_date :: "string \<Rightarrow> date option" where
  \<comment> \<open>the \<open>try\<close> block returns the date, the \<open>except\<close> branch returns \<open>None\<close>\<close>
  "parse_fname_date fname = strptime_Ymd (take 8 (basename fname))"

section \<open>Selecting the files of a folder\<close>

text \<open>
  Both loaders start from \<open>sorted(f for f in os.listdir(folder) if f.endswith(".xlsx"))\<close>
  and skip, at the head of the loop body, every name whose date is \<open>None\<close> or outside
  the range. \<open>dam_files\<close> and \<open>ida_files\<close> are the names that pass both tests, in loop
  order: the files the loop goes on to read.
\<close>

definition xlsx_files :: "string list \<Rightarrow> string list" where
  "xlsx_files names = sort (filter (\<lambda>f. endswith f ''.xlsx'') names)"

definition date_selected :: "date \<Rightarrow> date \<Rightarrow> string \<Rightarrow> bool" where
  "date_selected start_date end_date fname =
     (case parse_fname_date fname of
        None \<Rightarrow> False
      | Some fdate \<Rightarrow> \<not> (fdate < start_date \<or> fdate > end_date))"

definition dam_files :: "string list \<Rightarrow> date \<Rightarrow> date \<Rightarrow> string list" where
  "dam_files names start_date end_date = filter (date_selected start_date end_date) (xlsx_files names)"

definition ida_files :: "string list \<Rightarrow> date \<Rightarrow> date \<Rightarrow> string list" where
  "ida_files names start_date end_date = filter (date_selected start_date end_date) (xlsx_files names)"

section \<open>Tables\<close>

text \<open>
  A pandas \<open>DataFrame\<close> is its list of columns (name and dtype, in order) and its list of
  rows; a row holds its cells by column name, and a name the row does not hold is a
  missing cell. The dtype is kept with the column, as pandas keeps it: it is fixed when
  the file is read and does not change when rows are filtered. Numbers are exact reals
  (the rounding of floating-point arithmetic is not modelled), a timestamp is its count
  of nanoseconds since 1970-01-01, and \<open>Null\<close> is the missing value (\<open>NaN\<close>, \<open>NaT\<close>,
  \<open>None\<close>). \<open>read_excel\<close> and \<open>read_csv\<close> give every column a name of its own (they
  rename repeated headers).
\<close>

datatype cell = Null | Num real | Str string | Time int | Bool bool

datatype dtype = Number | Object | Datetime | Boolean

type_synonym row = "(string \<times> cell) list"

record frame =
  columns :: "(string \<times> dtype) list"
  rows :: "row list"

datatype error =
  OSError | EmptyDataError | IndexError | KeyError | TypeError | ValueError | MergeError
| AttributeError

definition and_then :: "error + 'a \<Rightarrow> ('a \<Rightarrow> error + 'b) \<Rightarrow> error + 'b" where
  \<comment> \<open>sequencing: an exception of the first step ends the computation\<close>
  "and_then m f = (case m of Inl err \<Rightarrow> Inl err | Inr x \<Rightarrow> f x)"

abbreviation DELIVERY_MTU :: string where
  "DELIVERY_MTU \<equiv> ''DELIVERY_MTU''"

abbreviation AUCTION :: string where
  "AUCTION \<equiv> ''AUCTION''"

definition colnames :: "frame \<Rightarrow> string list" where
  \<comment> \<open>\<open>df.columns\<close>\<close>
  "colnames df = map fst (columns df)"

definition cell_at :: "row \<Rightarrow> string \<Rightarrow> cell" where
  "cell_at r c = (case map_of r c of Some v \<Rightarrow> v | None \<Rightarrow> Null)"

definition column_cells :: "frame \<Rightarrow> string \<Rightarrow> cell list" where
  \<comment> \<open>\<open>df[c]\<close>\<close>
  "column_cells df c = map (\<lambda>r. cell_at r c) (rows df)"

definition dtype_of :: "frame \<Rightarrow> string \<Rightarrow> dtype option" where
  "dtype_of df c = map_of (columns df) c"

definition empty :: "frame \<Rightarrow> bool" where
  \<comment> \<open>\<open>df.empty\<close>: some axis has length 0\<close>
  "empty df \<longleftrightarrow> rows df = [] \<or> columns df = []"

definition DataFrame :: "string list \<Rightarrow> frame" where
  \<comment> \<open>\<open>pd.DataFrame(columns=names)\<close>, and \<open>pd.DataFrame()\<close> for no names: no rows\<close>
  "DataFrame names = \<lparr>columns = map (\<lambda>c. (c, Object)) names, rows = []\<rparr>"

definition assign_column :: "string \<Rightarrow> dtype \<Rightarrow> cell list \<Rightarrow> frame \<Rightarrow> frame" where
  \<comment> \<open>\<open>df[c] = values\<close>: an existing column is replaced where it stands, a new one is
      appended; every row gets its value\<close>
  "assign_column c dt vals df =
     \<lparr>columns = (if c \<in> set (colnames df)
                 then map (\<lambda>(n, d). if n = c then (c, dt) else (n, d)) (columns df)
                 else columns df @ [(c, dt)]),
      rows = map (\<lambda>(r, v). (c, v) # r) (zip (rows df) vals)\<rparr>"

definition filter_rows :: "(row \<Rightarrow> bool) \<Rightarrow> frame \<Rightarrow> frame" where
  \<comment> \<open>\<open>df[mask]\<close>: the rows where the mask holds; the columns and dtypes stay\<close>
  "filter_rows p df = \<lparr>columns = columns df, rows = filter p (rows df)\<rparr>"

definition dropna :: "string \<Rightarrow> frame \<Rightarrow> frame" where
  \<comment> \<open>\<open>df.dropna(subset=[c])\<close>\<close>
  "dropna c df = filter_rows (\<lambda>r. cell_at r c \<noteq> Null) df"

definition date_of :: "int \<Rightarrow> date" where
  \<comment> \<open>\<open>.dt.date\<close> of a timestamp: whole days since 1970-01-01, whose ordinal is 719163\<close>
  "date_of t = t div 86400000000000 + 719163"

definition date_in_range :: "date \<Rightarrow> date \<Rightarrow> cell \<Rightarrow> bool" where
  \<comment> \<open>\<open>(d_col >= start_date) & (d_col <= end_date)\<close> at one cell\<close>
  "date_in_range start_date end_date c =
     (case c of Time t \<Rightarrow> date_of t \<ge> start_date \<and> date_of t \<le> end_date | _ \<Rightarrow> False)"

definition first_seen :: "'a list \<Rightarrow> 'a list" where
  \<comment> \<open>the distinct elements, in the order of their first occurrences\<close>
  "first_seen xs = rev (remdups (rev xs))"

definition concat_dtype :: "frame list \<Rightarrow> string \<Rightarrow> dtype" where
  \<comment> \<open>the dtype of a column after \<open>pd.concat\<close>: the common dtype of the frames that have the
      column, \<open>object\<close> when they disagree or when a boolean column gets missing values.
      The numeric dtype does not tell \<open>int64\<close> from \<open>float64\<close>: where pandas turns booleans
      stacked on integers into 0 and 1, the model keeps them as they are, in an \<open>object\<close>
      column.\<close>
  "concat_dtype frames c =
     (case remdups (concat (map (\<lambda>df. case dtype_of df c of None \<Rightarrow> [] | Some dt \<Rightarrow> [dt]) frames)) of
        [dt] \<Rightarrow> if dt = Boolean \<and> list_ex (\<lambda>df. c \<notin> set (colnames df)) frames then Object else dt
      | _ \<Rightarrow> Object)"

definition pd_concat :: "frame list \<Rightarrow> frame" where
  \<comment> \<open>\<open>pd.concat(frames, ignore_index=True)\<close> of a non-empty list: the union of the columns
      in the order they first appear, the rows of the frames one after the other, a cell
      missing where a frame lacks the column\<close>
  "pd_concat frames =
     (let names = first_seen (concat (map colnames frames)) in
      \<lparr>columns = map (\<lambda>c. (c, concat_dtype frames c)) names,
       rows = concat (map (\<lambda>df. map (\<lambda>r. map (\<lambda>c. (c, cell_at r c)) names) (rows df)) frames)\<rparr>)"

section \<open>The environment\<close>

text \<open>
  What the program reads from and writes to the outside: the listing of a folder, the
  table of a spreadsheet or CSV file, \<open>pd.to_datetime(column, errors="coerce")\<close> (the
  timestamp of each cell of the column, or none), and the two writes at the end. A call
  that can raise returns its value or the exception.
\<close>

record env =
  listdir :: "string \<Rightarrow> error + string list"
  read_excel :: "string \<Rightarrow> error + frame"
  read_csv :: "string \<Rightarrow> error + frame"
  to_datetime :: "cell list \<Rightarrow> int option list"
  makedirs :: "string \<Rightarrow> error + unit"
  to_csv :: "string \<Rightarrow> frame \<Rightarrow> error + unit"

definition coerce_datetime :: "env \<Rightarrow> cell list \<Rightarrow> cell list" where
  \<comment> \<open>one cell per input cell: the timestamp, or the missing value where coercion fails\<close>
  "coerce_datetime e col =
     (let out = to_datetime e col in
      map (\<lambda>i. if i < length out then (case out ! i of Some t \<Rightarrow> Time t | None \<Rightarrow> Null) else Null)
          [0 ..< length col])"

section \<open>The day-ahead loader\<close>

definition clean_frame :: "env \<Rightarrow> date \<Rightarrow> date \<Rightarrow> frame \<Rightarrow> frame" where
  \<comment> \<open>the timestamp column coerced, its missing rows dropped, the rows filtered by their
      own date (both loaders)\<close>
  "clean_frame e start_date end_date df =
     (let df1 = assign_column DELIVERY_MTU Datetime (coerce_datetime e (column_cells df DELIVERY_MTU)) df;
          df2 = dropna DELIVERY_MTU df1
      in filter_rows (\<lambda>r. date_in_range start_date end_date (cell_at r DELIVERY_MTU)) df2)"

fun dam_loop :: "env \<Rightarrow> string \<Rightarrow> date \<Rightarrow> date \<Rightarrow> string list \<Rightarrow> frame list \<Rightarrow> error + frame list" where
  "dam_loop e dam_folder start_date end_date [] all_frames = Inr all_frames"
| "dam_loop e dam_folder start_date end_date (fname # files) all_frames =
     (case read_excel e (path_join dam_folder fname) of
        Inl err \<Rightarrow> Inl err
      | Inr df \<Rightarrow>
          if DELIVERY_MTU \<notin> set (colnames df)
          then dam_loop e dam_folder start_date end_date files all_frames
          else let df' = clean_frame e start_date end_date df in
            if empty df' then dam_loop e dam_folder start_date end_date files all_frames
            else dam_loop e dam_folder start_date end_date files (all_frames @ [df']))"

definition add_prefix :: "frame \<Rightarrow> frame" where
  \<comment> \<open>\<open>dam.rename(columns=rename_map)\<close>: \<open>DAM_\<close> before every name but the key\<close>
  "add_prefix dam =
     (let rn = (\<lambda>c. if c \<noteq> DELIVERY_MTU then ''DAM_'' @ c else c) in
      \<lparr>columns = map (\<lambda>(c, dt). (rn c, dt)) (columns dam),
       rows = map (map (\<lambda>(c, v). (rn c, v))) (rows dam)\<rparr>)"

definition numeric_cols :: "frame \<Rightarrow> string list" where
  \<comment> \<open>\<open>dam.select_dtypes(include=["number"]).columns.tolist()\<close>\<close>
  "numeric_cols dam = map fst (filter (\<lambda>(c, dt). dt = Number) (columns dam))"

definition numbers :: "cell list \<Rightarrow> real list" where
  "numbers cs = concat (map (\<lambda>c. case c of Num x \<Rightarrow> [x] | _ \<Rightarrow> []) cs)"

definition mean_cell :: "cell list \<Rightarrow> cell" where
  \<comment> \<open>the pandas mean: missing cells are skipped, no number at all gives a missing cell\<close>
  "mean_cell cs = (let xs = numbers cs in if xs = [] then Null else Num (sum_list xs / real (length xs)))"

definition times :: "cell list \<Rightarrow> int list" where
  "times cs = concat (map (\<lambda>c. case c of Time t \<Rightarrow> [t] | _ \<Rightarrow> []) cs)"

definition group_keys :: "frame \<Rightarrow> int list" where
  \<comment> \<open>the groups of \<open>groupby("DELIVERY_MTU")\<close>: the distinct timestamps, ascending; rows
      with a missing key form no group\<close>
  "group_keys dam = sort (remdups (times (column_cells dam DELIVERY_MTU)))"

definition group_rows :: "frame \<Rightarrow> int \<Rightarrow> row list" where
  "group_rows dam k = filter (\<lambda>r. cell_at r DELIVERY_MTU = Time k) (rows dam)"

definition groupby_mean :: "frame \<Rightarrow> string list \<Rightarrow> error + frame" where
  \<comment> \<open>\<open>dam.groupby("DELIVERY_MTU", as_index=False).agg({c: "mean" for c in cols})\<close>;
      pandas raises \<open>ValueError\<close> on an empty dictionary\<close>
  "groupby_mean dam cols =
     (if cols = [] then Inl ValueError
      else Inr \<lparr>columns = (DELIVERY_MTU, Datetime) # map (\<lambda>c. (c, Number)) cols,
                rows = map (\<lambda>k. (DELIVERY_MTU, Time k)
                                 # map (\<lambda>c. (c, mean_cell (map (\<lambda>r. cell_at r c) (group_rows dam k)))) cols)
                           (group_keys dam)\<rparr>)"

definition dam_aggregate :: "frame list \<Rightarrow> error + frame" where
  \<comment> \<open>from \<open>if not all_frames\<close> to the end of the loader\<close>
  "dam_aggregate all_frames =
     (if all_frames = [] then Inr (DataFrame [DELIVERY_MTU])
      else let dam = add_prefix (pd_concat all_frames) in groupby_mean dam (numeric_cols dam))"

definition load_dam_folder :: "env \<Rightarrow> string \<Rightarrow> date \<Rightarrow> date \<Rightarrow> error + frame" where
  "load_dam_folder e dam_folder start_date end_date =
     and_then (listdir e dam_folder) (\<lambda>names.
       and_then (dam_loop e dam_folder start_date end_date (dam_files names start_date end_date) [])
         dam_aggregate)"

section \<open>The intraday loader\<close>

definition tag_auction :: "string \<Rightarrow> frame \<Rightarrow> frame" where
  \<comment> \<open>\<open>df["AUCTION"] = auction_name\<close>: the label in every row\<close>
  "tag_auction auction_name df =
     assign_column AUCTION Object (replicate (length (rows df)) (Str auction_name)) df"

fun ida_loop :: "env \<Rightarrow> string \<Rightarrow> string \<Rightarrow> date \<Rightarrow> date \<Rightarrow> string list \<Rightarrow> frame list \<Rightarrow> error + frame list" where
  "ida_loop e folder auction_name start_date end_date [] frames = Inr frames"
| "ida_loop e folder auction_name start_date end_date (fname # files) frames =
     (case read_excel e (path_join folder fname) of
        Inl err \<Rightarrow> Inl err
      | Inr df \<Rightarrow>
          if DELIVERY_MTU \<notin> set (colnames df)
          then ida_loop e folder auction_name start_date end_date files frames
          else let df' = clean_frame e start_date end_date df in
            if empty df' then ida_loop e folder auction_name start_date end_date files frames
            else ida_loop e folder auction_name start_date end_date files
                   (frames @ [tag_auction auction_name df']))"

definition load_ida_folder :: "env \<Rightarrow> string \<Rightarrow> string \<Rightarrow> date \<Rightarrow> date \<Rightarrow> error + frame" where
  "load_ida_folder e folder auction_name start_date end_date =
     and_then (listdir e folder) (\<lambda>names.
       and_then (ida_loop e folder auction_name start_date end_date
                   (ida_files names start_date end_date) [])
         (\<lambda>frames. if frames = [] then Inr (DataFrame []) else Inr (pd_concat frames)))"

definition load_all_idas :: "env \<Rightarrow> string \<Rightarrow> date \<Rightarrow> date \<Rightarrow> error + frame" where
  "load_all_idas e idas_root start_date end_date =
     and_then (load_ida_folder e (path_join idas_root ''IDA1'') ''IDA1'' start_date end_date) (\<lambda>ida1.
     and_then (load_ida_folder e (path_join idas_root ''IDA2'') ''IDA2'' start_date end_date) (\<lambda>ida2.
     and_then (load_ida_folder e (path_join idas_root ''IDA3'') ''IDA3'' start_date end_date) (\<lambda>ida3.
       let frames = filter (\<lambda>df. \<not> empty df) [ida1, ida2, ida3] in
       if frames = [] then Inr (DataFrame []) else Inr (pd_concat frames))))"

section \<open>Joining and the weather table\<close>

definition with_missing :: "dtype \<Rightarrow> dtype" where
  \<comment> \<open>a boolean column that receives missing values becomes an \<open>object\<close> column\<close>
  "with_missing dt = (if dt = Boolean then Object else dt)"

definition caused_duplicates :: "string list \<Rightarrow> string list \<Rightarrow> bool" where
  \<comment> \<open>some renamed label repeats an earlier one though the original label did not\<close>
  "caused_duplicates old new =
     list_ex (\<lambda>i. new ! i \<in> set (take i new) \<and> old ! i \<notin> set (take i old)) [0 ..< length new]"

definition merge_left :: "frame \<Rightarrow> frame \<Rightarrow> string \<Rightarrow> error + frame" where
  \<comment> \<open>\<open>left.merge(right, on=key, how="left")\<close>: every left row in order, once for each right
      row with an equal key (missing keys equal each other), once with missing cells on the
      right when there is none. A name in both tables gets the suffix \<open>_x\<close> or \<open>_y\<close>;
      pandas raises when the suffix makes a name repeat, when a key column is absent, and
      when exactly one of two non-empty key columns holds timestamps.\<close>
  "merge_left left right on =
     (if on \<notin> set (colnames left) \<or> on \<notin> set (colnames right) then Inl KeyError
      else if rows left \<noteq> [] \<and> rows right \<noteq> []
              \<and> (dtype_of left on = Some Datetime) \<noteq> (dtype_of right on = Some Datetime)
      then Inl ValueError
      else
        let overlap = filter (\<lambda>c. c \<noteq> on \<and> c \<in> set (colnames right)) (colnames left);
            ln = (\<lambda>c. if c \<in> set overlap then c @ ''_x'' else c);
            rn = (\<lambda>c. if c \<in> set overlap then c @ ''_y'' else c);
            rcols = filter (\<lambda>(c, dt). c \<noteq> on) (columns right);
            matches = (\<lambda>l. filter (\<lambda>r. cell_at r on = cell_at l on) (rows right));
            unmatched = list_ex (\<lambda>l. matches l = []) (rows left)
        in
          if caused_duplicates (colnames left) (map ln (colnames left))
             \<or> caused_duplicates (colnames right) (map rn (colnames right))
          then Inl MergeError
          else Inr
            \<lparr>columns = map (\<lambda>(c, dt). (ln c, dt)) (columns left)
                       @ map (\<lambda>(c, dt). (rn c, if unmatched then with_missing dt else dt)) rcols,
             rows = concat (map (\<lambda>l.
                      let l' = map (\<lambda>(c, v). (ln c, v)) l in
                      if matches l = [] then [l' @ map (\<lambda>(c, dt). (rn c, Null)) rcols]
                      else map (\<lambda>r. l' @ map (\<lambda>(c, dt). (rn c, cell_at r c)) rcols) (matches l))
                    (rows left))\<rparr>)"

definition hour_ns :: int where
  "hour_ns = 3600000000000"

definition as_number :: "cell \<Rightarrow> cell" where
  \<comment> \<open>a boolean counts as 0 or 1 in a mean\<close>
  "as_number c = (case c of Bool b \<Rightarrow> Num (if b then 1 else 0) | _ \<Rightarrow> c)"

definition hour_bins :: "int list \<Rightarrow> int list" where
  \<comment> \<open>the hourly bins of \<open>resample("1H")\<close>: every hour from the first timestamp's to the
      last one's, none for no timestamp\<close>
  "hour_bins ts = (if ts = [] then [] else [Min (set ts) div hour_ns .. Max (set ts) div hour_ns])"

definition resample_hourly_mean :: "frame \<Rightarrow> error + frame" where
  \<comment> \<open>\<open>w.set_index("DELIVERY_MTU").sort_index().resample("1H").mean().reset_index()\<close>:
      one row for each hourly bin, holding the bin's start and the mean of every other
      column over the rows of the bin (rows with a missing timestamp are in no bin).
      pandas raises \<open>TypeError\<close> when two columns have the name of the index and when the
      index is not a datetime index, \<open>AttributeError\<close> when the table has rows and every
      timestamp is missing, and, in \<open>mean\<close>, \<open>TypeError\<close> on a column that is neither
      numeric nor boolean.\<close>
  "resample_hourly_mean w =
     (if DELIVERY_MTU \<notin> set (colnames w) then Inl KeyError
      else if length (filter (\<lambda>c. c = DELIVERY_MTU) (colnames w)) \<noteq> 1 then Inl TypeError
      else if dtype_of w DELIVERY_MTU \<noteq> Some Datetime then Inl TypeError
      else
        let others = filter (\<lambda>(c, dt). c \<noteq> DELIVERY_MTU) (columns w);
            time_of = (\<lambda>r. case cell_at r DELIVERY_MTU of Time t \<Rightarrow> t | _ \<Rightarrow> 0);
            timed = sort_key time_of (filter (\<lambda>r. times [cell_at r DELIVERY_MTU] \<noteq> []) (rows w))
        in
          if rows w \<noteq> [] \<and> timed = [] then Inl AttributeError
          else if list_ex (\<lambda>(c, dt). dt = Object \<or> dt = Datetime) others then Inl TypeError
          else Inr
            \<lparr>columns = (DELIVERY_MTU, Datetime) # map (\<lambda>(c, dt). (c, Number)) others,
             rows = map (\<lambda>h. (DELIVERY_MTU, Time (h * hour_ns))
                             # map (\<lambda>(c, dt). (c, mean_cell (map (\<lambda>r. as_number (cell_at r c))
                                                     (filter (\<lambda>r. time_of r div hour_ns = h) timed))))
                                   others)
                        (hour_bins (map time_of timed))\<rparr>)"

definition rename_column :: "string \<Rightarrow> string \<Rightarrow> frame \<Rightarrow> frame" where
  \<comment> \<open>\<open>w.rename(columns={old: new})\<close>\<close>
  "rename_column old new w =
     \<lparr>columns = map (\<lambda>(c, dt). (if c = old then new else c, dt)) (columns w),
      rows = map (map (\<lambda>(c, v). (if c = old then new else c, v))) (rows w)\<rparr>"

definition load_weather :: "env \<Rightarrow> string \<Rightarrow> error + frame" where
  \<comment> \<open>\<open>read_csv(weather_csv, parse_dates=[0])\<close> gives column 0 the datetime dtype when its
      cells parse; \<open>w.columns[0]\<close> raises \<open>IndexError\<close> on a table without columns\<close>
  "load_weather e weather_csv =
     and_then (read_csv e weather_csv) (\<lambda>w.
       case colnames w of
         [] \<Rightarrow> Inl IndexError
       | time_col # _ \<Rightarrow> resample_hourly_mean (rename_column time_col DELIVERY_MTU w))"

section \<open>The merge engine\<close>

record args =
  results_root :: string
  weather_csv :: string
  start_date :: date
  end_date :: date
  out :: string

datatype outcome =
  NoData string  \<comment> \<open>the diagnostic printed before the early \<open>return\<close>; nothing is written\<close>
| Saved string frame  \<comment> \<open>the path and the table written by \<open>to_csv\<close>\<close>

definition dirname :: "string \<Rightarrow> string" where
  \<comment> \<open>\<open>os.path.dirname\<close> (posixpath)\<close>
  "dirname p =
     (let head = rev (dropWhile (\<lambda>c. c \<noteq> CHR ''/'') (rev p)) in
      if head \<noteq> [] \<and> \<not> list_all (\<lambda>c. c = CHR ''/'') head
      then rev (dropWhile (\<lambda>c. c = CHR ''/'') (rev head)) else head)"

definition merge_tables :: "frame \<Rightarrow> frame \<Rightarrow> frame \<Rightarrow> error + frame" where
  \<comment> \<open>the two joins of \<open>main\<close>; \<open>ida_all.copy()\<close> is the table itself\<close>
  "merge_tables ida_all dam_all weather =
     and_then (if \<not> empty dam_all then merge_left ida_all dam_all DELIVERY_MTU else Inr ida_all)
       (\<lambda>merged. merge_left merged weather DELIVERY_MTU)"

definition save :: "env \<Rightarrow> string \<Rightarrow> frame \<Rightarrow> error + outcome" where
  "save e path merged =
     and_then (makedirs e (dirname path)) (\<lambda>_.
       and_then (to_csv e path merged) (\<lambda>_. Inr (Saved path merged)))"

definition main :: "env \<Rightarrow> args \<Rightarrow> error + outcome" where
  \<comment> \<open>\<open>Inl\<close>: an exception leaves \<open>main\<close>; \<open>Inr\<close>: \<open>main\<close> returns and the process ends with
      status 0. The arguments are the parsed command line. The printed diagnostic is
      kept without its leading mark.\<close>
  "main e a =
     (let dam_root = path_join (results_root a) ''DAM'';
          idas_root = path_join (results_root a) ''IDAs'' in
      and_then (load_dam_folder e dam_root (start_date a) (end_date a)) (\<lambda>dam_all.
      and_then (load_all_idas e idas_root (start_date a) (end_date a)) (\<lambda>ida_all.
        if empty ida_all then Inr (NoData ''No IDA data loaded, cannot build dataset.'')
        else
          and_then (load_weather e (weather_csv a)) (\<lambda>weather.
          and_then (merge_tables ida_all dam_all weather) (save e (out a))))))"

section \<open>The weather features\<close>

text \<open>
  The tables of the weather script carry their timestamps as the index, beside the
  columns. Their cells are numbers or missing values (the hourly series of the weather
  service). The resampling of pandas to an arbitrary frequency is not modelled: its two
  uses are parameters of \<open>resample_to_frequency\<close>, each returning a table or the exception
  it raises. One case of it is written out, \<open>interpolate_same_grid\<close>: interpolation over
  time when the frequency is the spacing the index already has.
\<close>

record tframe =
  index :: "int list"
  table :: frame

definition upper :: "string \<Rightarrow> string" where
  \<comment> \<open>\<open>str.upper\<close> on ASCII text, which frequency names are\<close>
  "upper s = map (\<lambda>c. if between CHR ''a'' CHR ''z'' c then char_of (of_char c - (32 :: nat)) else c) s"

definition select_columns :: "string list \<Rightarrow> frame \<Rightarrow> frame" where
  \<comment> \<open>\<open>df[cols]\<close> for names of the table\<close>
  "select_columns cols df =
     \<lparr>columns = map (\<lambda>c. (c, case dtype_of df c of Some dt \<Rightarrow> dt | None \<Rightarrow> Object)) cols,
      rows = map (\<lambda>r. map (\<lambda>c. (c, cell_at r c)) cols) (rows df)\<rparr>"

definition assign_columns :: "string list \<Rightarrow> frame \<Rightarrow> frame \<Rightarrow> frame" where
  \<comment> \<open>\<open>dst[cols] = src\<close>, column by column\<close>
  "assign_columns cols src dst =
     foldl (\<lambda>d c. assign_column c (case dtype_of src c of Some dt \<Rightarrow> dt | None \<Rightarrow> Object)
                     (column_cells src c) d) dst cols"

definition resample_to_frequency ::
  "(tframe \<Rightarrow> string \<Rightarrow> error + tframe) \<Rightarrow> (tframe \<Rightarrow> string \<Rightarrow> error + tframe)
     \<Rightarrow> tframe \<Rightarrow> string \<Rightarrow> error + tframe" where
  \<comment> \<open>\<open>interpolate\<close> stands for \<open>.resample(freq).interpolate(method="time")\<close> and
      \<open>ffill\<close> for \<open>.resample(freq).ffill()\<close>\<close>
  "resample_to_frequency interpolate ffill df freq =
     (if upper freq \<in> set [''60T'', ''1H'', ''H''] then Inr df
      else
        let num_cols = numeric_cols (table df);
            non_num = sort (remdups (filter (\<lambda>c. c \<notin> set num_cols) (colnames (table df))))
        in and_then (interpolate (df\<lparr>table := select_columns num_cols (table df)\<rparr>) freq) (\<lambda>res.
             if length non_num > 0
             then and_then (ffill (df\<lparr>table := select_columns non_num (table df)\<rparr>) freq) (\<lambda>filled.
                    Inr (res\<lparr>table := assign_columns non_num (table filled) (table res)\<rparr>))
             else Inr res))"

definition is_num :: "cell \<Rightarrow> bool" where
  "is_num c = (case c of Num x \<Rightarrow> True | _ \<Rightarrow> False)"

definition interpolate_time :: "int list \<Rightarrow> cell list \<Rightarrow> cell list" where
  \<comment> \<open>\<open>series.interpolate(method="time")\<close> of a numeric column over the timestamps \<open>ts\<close>: a
      missing value between two numbers lies on the line through them, one after the last
      number repeats it, one before the first number stays missing\<close>
  "interpolate_time ts cs =
     map (\<lambda>i. if is_num (cs ! i) then cs ! i
               else
                 let before = filter (\<lambda>j. is_num (cs ! j)) [0 ..< i];
                     after = filter (\<lambda>j. is_num (cs ! j)) [Suc i ..< length cs]
                 in if before = [] then Null
                    else if after = [] then cs ! last before
                    else (case (cs ! last before, cs ! hd after) of
                            (Num y0, Num y1) \<Rightarrow>
                              Num (y0 + (y1 - y0) * real_of_int (ts ! i - ts ! last before)
                                                  / real_of_int (ts ! hd after - ts ! last before))
                          | _ \<Rightarrow> Null))
         [0 ..< length cs]"

definition interpolate_same_grid :: "tframe \<Rightarrow> tframe" where
  \<comment> \<open>\<open>df.resample(freq).interpolate(method="time")\<close> of numeric columns when \<open>freq\<close> is the
      spacing of the index, as \<open>"60min"\<close> is for an index of consecutive hours: the index
      stays and every column is interpolated over it\<close>
  "interpolate_same_grid df =
     df\<lparr>table :=
         \<lparr>columns = columns (table df),
          rows = map (\<lambda>i. map (\<lambda>c. (c, interpolate_time (index df) (column_cells (table df) c) ! i))
                                (colnames (table df)))
                     [0 ..< length (rows (table df))]\<rparr>\<rparr>"

definition cols_like :: "frame \<Rightarrow> string \<Rightarrow> string list" where
  "cols_like df var = filter (\<lambda>c. endswith c (''__'' @ var)) (colnames df)"

definition median_cell :: "cell list \<Rightarrow> cell" where
  \<comment> \<open>the pandas median: missing cells are skipped\<close>
  "median_cell cs =
     (let xs = sort (numbers cs); n = length xs in
      if n = 0 then Null
      else if odd n then Num (xs ! (n div 2))
      else Num ((xs ! (n div 2 - 1) + xs ! (n div 2)) / 2))"

definition add_aggregates :: "string \<Rightarrow> frame \<Rightarrow> frame" where
  \<comment> \<open>one round of the first loop: the mean and the median across the sites' columns\<close>
  "add_aggregates var df =
     (let cols = cols_like df var in
      if cols \<noteq> [] then
        let df1 = assign_column (''AGG__mean__'' @ var) Number
                    (map (\<lambda>r. mean_cell (map (cell_at r) cols)) (rows df)) df
        in assign_column (''AGG__median__'' @ var) Number
             (map (\<lambda>r. median_cell (map (cell_at r) cols)) (rows df1)) df1
      else df)"

definition add_is_day :: "frame \<Rightarrow> frame" where
  "add_is_day df =
     (let cols_day = cols_like df ''is_day'' in
      if cols_day \<noteq> [] then
        assign_column ''AGG__mean__is_day'' Number
          (map (\<lambda>r. mean_cell (map (cell_at r) cols_day)) (rows df)) df
      else df)"

definition diff1 :: "cell list \<Rightarrow> cell list" where
  \<comment> \<open>\<open>series.diff(1)\<close>: missing in the first row and next to a missing value\<close>
  "diff1 cs =
     map (\<lambda>i. if i = 0 then Null
               else (case (cs ! i, cs ! (i - 1)) of (Num x, Num y) \<Rightarrow> Num (x - y) | _ \<Rightarrow> Null))
         [0 ..< length cs]"

definition add_delta :: "string \<Rightarrow> frame \<Rightarrow> frame" where
  "add_delta base df =
     (if base \<in> set (colnames df)
      then assign_column (base @ ''__delta1'') Number (diff1 (column_cells df base)) df
      else df)"

definition window :: "nat \<Rightarrow> 'a list \<Rightarrow> nat \<Rightarrow> 'a list" where
  \<comment> \<open>the window of row \<open>i\<close>: that row and the rows before it, \<open>w\<close> rows at most\<close>
  "window w xs i = drop (Suc i - w) (take (Suc i) xs)"

definition rolling :: "nat \<Rightarrow> nat \<Rightarrow> (cell list \<Rightarrow> cell) \<Rightarrow> cell list \<Rightarrow> cell list" where
  \<comment> \<open>\<open>series.rolling(w, min_periods=m)\<close> followed by a statistic: missing where the window
      holds fewer than \<open>m\<close> numbers. This is pandas for \<open>m \<le> w\<close>, as with the window sizes 3
      and 6 of the program; for \<open>w < m\<close> pandas raises \<open>ValueError\<close>, which is not modelled.\<close>
  "rolling w m stat xs =
     map (\<lambda>i. if length (numbers (window w xs i)) < m then Null else stat (window w xs i))
         [0 ..< length xs]"

definition std_cell :: "cell list \<Rightarrow> cell" where
  \<comment> \<open>the pandas standard deviation (\<open>ddof=1\<close>): missing cells are skipped, fewer than two
      numbers give a missing cell\<close>
  "std_cell cs =
     (let xs = numbers cs; n = length xs; m = sum_list xs / real n in
      if n < 2 then Null
      else Num (sqrt (sum_list (map (\<lambda>x. (x - m)\<^sup>2) xs) / real (n - 1))))"

fun str_nat :: "nat \<Rightarrow> string" where
  "str_nat n =
     (if n < 10 then [char_of (48 + n)] else str_nat (n div 10) @ [char_of (48 + n mod 10)])"

declare str_nat.simps [simp del]

definition roll_step :: "nat \<Rightarrow> string \<Rightarrow> frame \<Rightarrow> frame" where
  \<comment> \<open>the body of the rolling loop for one window size and one column\<close>
  "roll_step w base df =
     (if base \<in> set (colnames df) then
        let df1 = assign_column (base @ ''__rollstd'' @ str_nat w) Number
                    (rolling w 1 std_cell (column_cells df base)) df
        in assign_column (base @ ''__rollmean'' @ str_nat w) Number
             (rolling w 1 mean_cell (column_cells df1 base)) df1
      else df)"

definition ord2ymd :: "int \<Rightarrow> int \<times> int \<times> int" where
  \<comment> \<open>year, month and day of an ordinal (CPython's \<open>_ord2ymd\<close>)\<close>
  "ord2ymd ordinal =
     (let n0 = ordinal - 1;
          n400 = n0 div 146097; na = n0 mod 146097;
          n100 = na div 36524; nb = na mod 36524;
          n4 = nb div 1461; nc = nb mod 1461;
          n1 = nc div 365; n = nc mod 365;
          year = n400 * 400 + 1 + n100 * 100 + n4 * 4 + n1
      in if n1 = 4 \<or> n100 = 4 then (year - 1, 12, 31)
         else
           let leapyear = (n1 = 3 \<and> (n4 \<noteq> 24 \<or> n100 = 3));
               month = (n + 50) div 32;
               preceding = [0, 31, 59, 90, 120, 151, 181, 212, 243, 273, 304, 334] ! nat (month - 1)
                             + (if month > 2 \<and> leapyear then 1 else 0)
           in if preceding > n
              then (year, month - 1,
                    n - (preceding - ([31, 28, 31, 30, 31, 30, 31, 31, 30, 31, 30, 31] ! nat (month - 2)
                                       + (if month - 1 = 2 \<and> leapyear then 1 else 0))) + 1)
              else (year, month, n - preceding + 1))"

definition add_calendar :: "tframe \<Rightarrow> tframe" where
  \<comment> \<open>hour, day of the week (Monday is 0; 1970-01-01 was a Thursday) and month of the index\<close>
  "add_calendar df =
     df\<lparr>table :=
         assign_column ''cal_month'' Number
           (map (\<lambda>t. Num (real_of_int (fst (snd (ord2ymd (date_of t)))))) (index df))
           (assign_column ''cal_dow'' Number
              (map (\<lambda>t. Num (real_of_int ((t div (24 * hour_ns) + 3) mod 7))) (index df))
              (assign_column ''cal_hour'' Number
                 (map (\<lambda>t. Num (real_of_int (t div hour_ns mod 24))) (index df))
                 (table df)))\<rparr>"

definition build_feature_block :: "tframe \<Rightarrow> string \<Rightarrow> nat list \<Rightarrow> tframe" where
  "build_feature_block df_all freq rolling_windows =
     (let t1 = foldl (\<lambda>df var. add_aggregates var df) (table df_all)
                 [''wind_speed_10m'', ''wind_gusts_10m'', ''shortwave_radiation'',
                  ''cloud_cover'', ''precipitation''];
          t2 = add_is_day t1;
          t3 = foldl (\<lambda>df base. add_delta base df) t2
                 [''AGG__mean__wind_speed_10m'', ''AGG__mean__shortwave_radiation'',
                  ''AGG__mean__cloud_cover''];
          t4 = foldl (\<lambda>df w. foldl (\<lambda>df' base. roll_step w base df') df
                                [''AGG__mean__wind_speed_10m'', ''AGG__mean__shortwave_radiation''])
                 t3 rolling_windows
      in add_calendar (df_all\<lparr>table := t4\<rparr>))"

section \<open>A small run\<close>

text \<open>
  One day-ahead file that publishes the first hour twice (50 and 52) and the second hour
  once, one round-1 file with a row for each of the two hours, and a weather file with
  two observations in the first hour and one in the second. The hours are those of
  2024-06-16, 00:00 and 01:00. The listings of the day-ahead, round-1 and round-2 folders
  are parameters, so that a run without day-ahead files or without intraday files is the
  same run with another listing; round 2, when listed, publishes the same two hours. A
  second round-1 file, dated the next day, has the same two rows and a column \<open>AUCTION\<close> of
  its own.
\<close>

definition t0 :: int where
  "t0 = 1718496000000000000"

definition t1 :: int where
  "t1 = 1718499600000000000"

definition dam_sheet :: frame where
  "dam_sheet =
     \<lparr>columns = [(DELIVERY_MTU, Datetime), (''MCP'', Number), (''ZONE'', Object)],
      rows = [[(DELIVERY_MTU, Time t0), (''MCP'', Num 50), (''ZONE'', Str ''GR'')],
              [(DELIVERY_MTU, Time t0), (''MCP'', Num 52), (''ZONE'', Str ''GR'')],
              [(DELIVERY_MTU, Time t1), (''MCP'', Num 60), (''ZONE'', Str ''GR'')]]\<rparr>"

definition ida_sheet :: frame where
  "ida_sheet =
     \<lparr>columns = [(DELIVERY_MTU, Datetime), (''Price'', Number)],
      rows = [[(DELIVERY_MTU, Time t0), (''Price'', Num 70)],
              [(DELIVERY_MTU, Time t1), (''Price'', Num 71)]]\<rparr>"

definition ida_sheet_labelled :: frame where
  \<comment> \<open>a round-1 sheet that has a column \<open>AUCTION\<close> of its own\<close>
  "ida_sheet_labelled =
     \<lparr>columns = [(DELIVERY_MTU, Datetime), (AUCTION, Object), (''Price'', Number)],
      rows = [[(DELIVERY_MTU, Time t0), (AUCTION, Str ''CRIDA1''), (''Price'', Num 70)],
              [(DELIVERY_MTU, Time t1), (AUCTION, Str ''CRIDA1''), (''Price'', Num 71)]]\<rparr>"

definition weather_sheet :: frame where
  "weather_sheet =
     \<lparr>columns = [(''time'', Datetime), (''wind'', Number)],
      rows = [[(''time'', Time t0), (''wind'', Num 4)],
              [(''time'', Time (t0 + 900000000000)), (''wind'', Num 6)],
              [(''time'', Time t1), (''wind'', Num 8)]]\<rparr>"

definition demo_env :: "string list \<Rightarrow> string list \<Rightarrow> string list \<Rightarrow> env" where
  "demo_env dam_names ida1_names ida2_names =
     \<lparr>listdir = (\<lambda>p. if p = ''r/DAM'' then Inr dam_names
                     else if p = ''r/IDAs/IDA1'' then Inr ida1_names
                     else if p = ''r/IDAs/IDA2'' then Inr ida2_names
                     else if p = ''r/IDAs/IDA3'' then Inr []
                     else Inl OSError),
      read_excel = (\<lambda>p. if p = ''r/DAM/20240616_dam.xlsx'' then Inr dam_sheet
                        else if p = ''r/IDAs/IDA1/20240616_ida.xlsx'' then Inr ida_sheet
                        else if p = ''r/IDAs/IDA2/20240616_ida.xlsx'' then Inr ida_sheet
                        else if p = ''r/IDAs/IDA1/20240617_ida.xlsx'' then Inr ida_sheet_labelled
                        else Inl OSError),
      read_csv = (\<lambda>p. if p = ''w.csv'' then Inr weather_sheet else Inl OSError),
      to_datetime = map (\<lambda>c. case c of Time t \<Rightarrow> Some t | _ \<Rightarrow> None),
      makedirs = (\<lambda>p. Inr ()),
      to_csv = (\<lambda>p df. Inr ())\<rparr>"

definition demo_args :: args where
  "demo_args =
     \<lparr>results_root = ''r'', weather_csv = ''w.csv'', start_date = 739053, end_date = 739251,
      out = ''o/idm.csv''\<rparr>"

definition wind_demo :: tframe where
  \<comment> \<open>three hours of wind speed at two sites\<close>
  "wind_demo =
     \<lparr>index = [t0, t1, t1 + 3600000000000],
      table = \<lparr>columns = [(''A__wind_speed_10m'', Number), (''B__wind_speed_10m'', Number)],
               rows = [[(''A__wind_speed_10m'', Num 1), (''B__wind_speed_10m'', Num 3)],
                       [(''A__wind_speed_10m'', Num 3), (''B__wind_speed_10m'', Num 5)],
                       [(''A__wind_speed_10m'', Num 5), (''B__wind_speed_10m'', Num 7)]]\<rparr>\<rparr>"

definition gap_demo :: tframe where
  \<comment> \<open>three consecutive hours of one temperature, the second one missing\<close>
  "gap_demo =
     \<lparr>index = [t0, t1, t1 + 3600000000000],
      table = \<lparr>columns = [(''A__temperature_2m'', Number)],
               rows = [[(''A__temperature_2m'', Num 20)],
                       [(''A__temperature_2m'', Null)],
                       [(''A__temperature_2m'', Num 22)]]\<rparr>\<rparr>"

definition wind_means :: frame where
  \<comment> \<open>the across-site means of \<open>wind_demo\<close>\<close>
  "wind_means =
     \<lparr>columns = [(''AGG__mean__wind_speed_10m'', Number)],
      rows = [[(''AGG__mean__wind_speed_10m'', Num 2)],
              [(''AGG__mean__wind_speed_10m'', Num 4)],
              [(''AGG__mean__wind_speed_10m'', Num 6)]]\<rparr>"

section \<open>The files a loader reads\<close>

lemma set_xlsx_files: "set (xlsx_files names) = {f \<in> set names. endswith f ''.xlsx''}"
  by (auto simp: xlsx_files_def)

lemma set_dam_files:
  "set (dam_files names s e) = {f \<in> set names. endswith f ''.xlsx'' \<and> date_selected s e f}"
  by (auto simp: dam_files_def set_xlsx_files)

lemma set_ida_files:
  "set (ida_files names s e) = {f \<in> set names. endswith f ''.xlsx'' \<and> date_selected s e f}"
  by (auto simp: ida_files_def set_xlsx_files)

lemmas parse_defs = parse_fname_date_def basename_def strptime_Ymd_def re_match_Ymd_def re_Y_def
  re_m_def re_d_def alt1_def alt2_def is_digit_def between_def py_int_def make_date_def
  days_in_month_def is_leap_def ymd2ord_def days_before_year_def days_before_month_def

text \<open>
  C9. Neither loader reads a file whose name does not end in \<open>.xlsx\<close>, whatever its date
  token is: such a name is in neither list of files to read.
\<close>

theorem only_xlsx_files_are_read:
  "\<not> endswith fname ''.xlsx'' \<Longrightarrow>
     fname \<notin> set (dam_files names first_day last_day) \<and>
     fname \<notin> set (ida_files names first_day last_day)"
  by (simp add: set_dam_files set_ida_files)

theorem only_xlsx_files_are_read_witness:
  "\<not> endswith ''20240616_EL-DAM_Results_EN_v01.csv'' ''.xlsx'' \<and>
   parse_fname_date ''20240616_EL-DAM_Results_EN_v01.csv'' = Some 739053 \<and>
   ''20240616_EL-DAM_Results_EN_v01.csv''
      \<notin> set (dam_files [''20240616_EL-DAM_Results_EN_v01.csv'', ''20240616_EL-DAM_Results_EN_v01.xlsx'']
                 739053 739251) \<and>
   ''20240616_EL-DAM_Results_EN_v01.csv''
      \<notin> set (ida_files [''20240616_EL-DAM_Results_EN_v01.csv'', ''20240616_EL-DAM_Results_EN_v01.xlsx'']
                 739053 739251)"
proof -
  have h: "\<not> endswith ''20240616_EL-DAM_Results_EN_v01.csv'' ''.xlsx''"
    by (simp add: endswith_def)
  have p: "parse_fname_date ''20240616_EL-DAM_Results_EN_v01.csv'' = Some 739053"
    by (simp add: parse_defs)
  from only_xlsx_files_are_read [OF h] h p show ?thesis by blast
qed

text \<open>
  C7, as the code has it. A listed file whose name ends in \<open>.xlsx\<close> and whose date token
  parses is read by a loader exactly when its date lies between the first and the last
  day, both included. The claim as stated also covers names with another ending, and
  fails there: a \<open>.csv\<close> file dated on the first day is not read.
\<close>

theorem dated_xlsx_file_read_iff_in_range:
  assumes "fname \<in> set names" and "endswith fname ''.xlsx''"
    and "parse_fname_date fname = Some d"
  shows "(fname \<in> set (dam_files names first_day last_day) \<longleftrightarrow> first_day \<le> d \<and> d \<le> last_day)
       \<and> (fname \<in> set (ida_files names first_day last_day) \<longleftrightarrow> first_day \<le> d \<and> d \<le> last_day)"
  using assms by (auto simp: set_dam_files set_ida_files date_selected_def)

theorem dated_xlsx_file_read_iff_in_range_witness:
  "''20240616_a.xlsx'' \<in> set (dam_files [''20240615_a.xlsx'', ''20240616_a.xlsx'', ''20241231_a.xlsx'', ''20250101_a.xlsx''] 739053 739251) \<and>
   ''20241231_a.xlsx'' \<in> set (ida_files [''20240615_a.xlsx'', ''20240616_a.xlsx'', ''20241231_a.xlsx'', ''20250101_a.xlsx''] 739053 739251) \<and>
   ''20240615_a.xlsx'' \<notin> set (dam_files [''20240615_a.xlsx'', ''20240616_a.xlsx'', ''20241231_a.xlsx'', ''20250101_a.xlsx''] 739053 739251) \<and>
   ''20250101_a.xlsx'' \<notin> set (ida_files [''20240615_a.xlsx'', ''20240616_a.xlsx'', ''20241231_a.xlsx'', ''20250101_a.xlsx''] 739053 739251)"
proof -
  let ?names = "[''20240615_a.xlsx'', ''20240616_a.xlsx'', ''20241231_a.xlsx'', ''20250101_a.xlsx'']"
  have first: "parse_fname_date ''20240616_a.xlsx'' = Some 739053"
    and before: "parse_fname_date ''20240615_a.xlsx'' = Some 739052"
    and last: "parse_fname_date ''20241231_a.xlsx'' = Some 739251"
    and after: "parse_fname_date ''20250101_a.xlsx'' = Some 739252"
    by (simp_all add: parse_defs)
  have x: "endswith ''20240616_a.xlsx'' ''.xlsx''" "endswith ''20240615_a.xlsx'' ''.xlsx''"
    "endswith ''20241231_a.xlsx'' ''.xlsx''" "endswith ''20250101_a.xlsx'' ''.xlsx''"
    by (simp_all add: endswith_def)
  have m: "''20240616_a.xlsx'' \<in> set ?names" "''20240615_a.xlsx'' \<in> set ?names"
    "''20241231_a.xlsx'' \<in> set ?names" "''20250101_a.xlsx'' \<in> set ?names"
    by simp_all
  from dated_xlsx_file_read_iff_in_range [OF m(1) x(1) first, of 739053 739251]
       dated_xlsx_file_read_iff_in_range [OF m(2) x(2) before, of 739053 739251]
       dated_xlsx_file_read_iff_in_range [OF m(3) x(3) last, of 739053 739251]
       dated_xlsx_file_read_iff_in_range [OF m(4) x(4) after, of 739053 739251]
  show ?thesis by simp
qed

theorem csv_file_in_range_not_read:
  "''20240616_EL-DAM_Results_EN_v01.csv'' \<in> set [''20240616_EL-DAM_Results_EN_v01.csv''] \<and>
   parse_fname_date ''20240616_EL-DAM_Results_EN_v01.csv'' = Some 739053 \<and>
   (739053 :: int) \<le> 739053 \<and> (739053 :: int) \<le> 739251 \<and>
   ''20240616_EL-DAM_Results_EN_v01.csv''
      \<notin> set (dam_files [''20240616_EL-DAM_Results_EN_v01.csv''] 739053 739251)"
  by (simp add: set_dam_files endswith_def parse_defs)

section \<open>Resampling to the hourly cadence\<close>

text \<open>
  C6, as the code has it. When the frequency, in upper case, is one of the three hourly
  names the code recognises (\<open>60T\<close>, \<open>1H\<close>, \<open>H\<close>), the resampler returns its input table
  itself, whatever the table is and whatever the resampling of pandas would do. The claim
  as stated covers every way of writing the hourly cadence, and fails for \<open>60min\<close>: that
  name is not one of the three, so the table is resampled and interpolated, and a value
  missing between two hours comes back filled.
\<close>

theorem resample_native_frequency_identity:
  "upper freq \<in> set [''60T'', ''1H'', ''H''] \<Longrightarrow>
     resample_to_frequency interpolate ffill df freq = Inr df"
  by (simp add: resample_to_frequency_def)

theorem resample_native_frequency_identity_witness:
  "upper ''1h'' \<in> set [''60T'', ''1H'', ''H''] \<and>
   resample_to_frequency (\<lambda>d f. Inl ValueError) (\<lambda>d f. Inl ValueError)
     \<lparr>index = [0, 3600000000000],
      table = \<lparr>columns = [(''A__temperature_2m'', Number)],
               rows = [[(''A__temperature_2m'', Num 20)], [(''A__temperature_2m'', Null)]]\<rparr>\<rparr>
     ''1h''
   = Inr \<lparr>index = [0, 3600000000000],
          table = \<lparr>columns = [(''A__temperature_2m'', Number)],
                   rows = [[(''A__temperature_2m'', Num 20)], [(''A__temperature_2m'', Null)]]\<rparr>\<rparr>"
proof -
  have h: "upper ''1h'' \<in> set [''60T'', ''1H'', ''H'']"
    by code_simp
  from resample_native_frequency_identity [OF h] h show ?thesis by blast
qed

theorem hourly_name_60min_is_resampled:
  "upper ''60min'' \<notin> set [''60T'', ''1H'', ''H''] \<and>
   resample_to_frequency (\<lambda>d f. Inr (interpolate_same_grid d)) (\<lambda>d f. Inl ValueError)
     gap_demo ''60min''
   = Inr \<lparr>index = [t0, t1, t1 + 3600000000000],
          table = \<lparr>columns = [(''A__temperature_2m'', Number)],
                   rows = [[(''A__temperature_2m'', Num 20)],
                           [(''A__temperature_2m'', Num 21)],
                           [(''A__temperature_2m'', Num 22)]]\<rparr>\<rparr> \<and>
   resample_to_frequency (\<lambda>d f. Inr (interpolate_same_grid d)) (\<lambda>d f. Inl ValueError)
     gap_demo ''60min''
   \<noteq> Inr gap_demo"
  by code_simp

section \<open>Joins keep the intraday rows\<close>

lemma and_then_Inr [simp]: "and_then (Inr x) f = f x"
  by (simp add: and_then_def)

lemma and_then_Inl [simp]: "and_then (Inl err) f = Inl err"
  by (simp add: and_then_def)

lemma length_filter_le_1:
  "distinct (map f xs) \<Longrightarrow> length (filter (\<lambda>x. f x = v) xs) \<le> 1"
proof (induction xs)
  case Nil
  then show ?case by simp
next
  case (Cons x xs)
  show ?case
  proof (cases "f x = v")
    case True
    with Cons.prems have "filter (\<lambda>y. f y = v) xs = []"
      by (force simp: filter_empty_conv image_iff)
    with True show ?thesis by simp
  next
    case False
    with Cons show ?thesis by simp
  qed
qed

lemma length_concat_singletons:
  "(\<And>x. x \<in> set xs \<Longrightarrow> length (f x) = 1) \<Longrightarrow> length (concat (map f xs)) = length xs"
  by (induction xs) simp_all

lemma merge_left_length:
  assumes m: "merge_left left right on = Inr merged"
    and d: "distinct (column_cells right on)"
  shows "length (rows merged) = length (rows left)"
proof -
  let ?matches = "\<lambda>l. filter (\<lambda>r. cell_at r on = cell_at l on) (rows right)"
  have le: "length (?matches l) \<le> 1" for l
    using length_filter_le_1 [of "\<lambda>r. cell_at r on" "rows right" "cell_at l on"] d
    by (simp add: column_cells_def)
  have one: "?matches l \<noteq> [] \<Longrightarrow> length (?matches l) = Suc 0" for l
    using le [of l] by (cases "?matches l") simp_all
  from m show ?thesis
    by (auto simp: merge_left_def Let_def one split: if_splits intro!: length_concat_singletons)
qed


lemma and_then_eq_Inr_E:
  assumes "and_then m f = Inr y"
  obtains x where "m = Inr x" and "f x = Inr y"
  using assms by (cases m) simp_all

lemma cell_at_Cons [simp]: "cell_at ((c, v) # r) c' = (if c' = c then v else cell_at r c')"
  by (simp add: cell_at_def)

lemma distinct_group_keys: "distinct (group_keys dam)"
  by (simp add: group_keys_def)

lemma groupby_mean_keys:
  "groupby_mean dam cols = Inr g \<Longrightarrow> column_cells g DELIVERY_MTU = map Time (group_keys dam)"
  by (auto simp: groupby_mean_def column_cells_def split: if_splits)

lemma dam_aggregate_distinct:
  assumes "dam_aggregate all_frames = Inr g"
  shows "distinct (column_cells g DELIVERY_MTU)"
proof (cases "all_frames = []")
  case True
  with assms show ?thesis
    by (auto simp: dam_aggregate_def DataFrame_def column_cells_def)
next
  case False
  with assms have "column_cells g DELIVERY_MTU
      = map Time (group_keys (add_prefix (pd_concat all_frames)))"
    by (simp add: dam_aggregate_def Let_def groupby_mean_keys)
  then show ?thesis
    by (simp add: distinct_map distinct_group_keys inj_on_def)
qed

lemma load_dam_folder_distinct:
  assumes "load_dam_folder e dam_folder s t = Inr g"
  shows "distinct (column_cells g DELIVERY_MTU)"
proof -
  from assms obtain names where "and_then (dam_loop e dam_folder s t (dam_files names s t) []) dam_aggregate = Inr g"
    unfolding load_dam_folder_def by (rule and_then_eq_Inr_E)
  then obtain fs where "dam_aggregate fs = Inr g"
    by (rule and_then_eq_Inr_E)
  then show ?thesis by (rule dam_aggregate_distinct)
qed

lemma distinct_hour_bins: "distinct (hour_bins ts)"
  by (simp add: hour_bins_def)

lemma resample_hourly_mean_keys:
  assumes "resample_hourly_mean w = Inr h"
  shows "\<exists>ts. column_cells h DELIVERY_MTU = map (\<lambda>x. Time (x * hour_ns)) (hour_bins ts)"
  using assms
  by (auto simp: resample_hourly_mean_def Let_def column_cells_def comp_def split: if_splits)

lemma resample_hourly_mean_distinct:
  assumes "resample_hourly_mean w = Inr h"
  shows "distinct (column_cells h DELIVERY_MTU)"
proof -
  from resample_hourly_mean_keys [OF assms] obtain ts
    where "column_cells h DELIVERY_MTU = map (\<lambda>x. Time (x * hour_ns)) (hour_bins ts)" ..
  then show ?thesis
    by (simp add: distinct_map distinct_hour_bins inj_on_def hour_ns_def)
qed

lemma load_weather_distinct:
  assumes "load_weather e path = Inr w"
  shows "distinct (column_cells w DELIVERY_MTU)"
proof -
  from assms obtain raw where "(case colnames raw of [] \<Rightarrow> Inl IndexError
       | time_col # _ \<Rightarrow> resample_hourly_mean (rename_column time_col DELIVERY_MTU raw)) = Inr w"
    unfolding load_weather_def by (rule and_then_eq_Inr_E)
  then obtain w' where "resample_hourly_mean w' = Inr w"
    by (cases "colnames raw") auto
  then show ?thesis by (rule resample_hourly_mean_distinct)
qed

lemma merge_tables_length:
  assumes m: "merge_tables ida_all dam_all weather = Inr merged"
    and d: "distinct (column_cells dam_all DELIVERY_MTU)"
    and w: "distinct (column_cells weather DELIVERY_MTU)"
  shows "length (rows merged) = length (rows ida_all)"
proof -
  from m obtain first where f: "(if \<not> empty dam_all then merge_left ida_all dam_all DELIVERY_MTU else Inr ida_all) = Inr first"
    and s: "merge_left first weather DELIVERY_MTU = Inr merged"
    unfolding merge_tables_def by (rule and_then_eq_Inr_E)
  from f d have "length (rows first) = length (rows ida_all)"
    by (auto split: if_splits dest: merge_left_length)
  moreover from s w have "length (rows merged) = length (rows first)"
    by (rule merge_left_length)
  ultimately show ?thesis by simp
qed

lemma save_eq_Saved:
  "save e p m = Inr (Saved path merged) \<Longrightarrow> merged = m \<and> path = p"
  by (auto simp: save_def elim!: and_then_eq_Inr_E)

lemma saved_table_row_count:
  assumes "main e a = Inr (Saved path merged)"
  shows "\<exists>ida_all. load_all_idas e (path_join (results_root a) ''IDAs'') (start_date a) (end_date a)
                      = Inr ida_all
           \<and> \<not> empty ida_all \<and> length (rows merged) = length (rows ida_all)"
proof -
  from assms obtain dam_all where dam: "load_dam_folder e (path_join (results_root a) ''DAM'') (start_date a) (end_date a) = Inr dam_all"
    and r1: "and_then (load_all_idas e (path_join (results_root a) ''IDAs'') (start_date a) (end_date a))
       (\<lambda>ida_all. if empty ida_all then Inr (NoData ''No IDA data loaded, cannot build dataset.'')
          else and_then (load_weather e (weather_csv a)) (\<lambda>weather.
                 and_then (merge_tables ida_all dam_all weather) (save e (out a))))
       = Inr (Saved path merged)"
    unfolding main_def Let_def by (rule and_then_eq_Inr_E)
  from r1 obtain ida_all where ida: "load_all_idas e (path_join (results_root a) ''IDAs'') (start_date a) (end_date a) = Inr ida_all"
    and r2: "(if empty ida_all then Inr (NoData ''No IDA data loaded, cannot build dataset.'')
          else and_then (load_weather e (weather_csv a)) (\<lambda>weather.
                 and_then (merge_tables ida_all dam_all weather) (save e (out a))))
       = Inr (Saved path merged)"
    by (rule and_then_eq_Inr_E)
  from r2 have ne: "\<not> empty ida_all"
    by (auto split: if_splits)
  with r2 obtain weather where w: "load_weather e (weather_csv a) = Inr weather"
    and r3: "and_then (merge_tables ida_all dam_all weather) (save e (out a)) = Inr (Saved path merged)"
    by (auto elim!: and_then_eq_Inr_E)
  from r3 obtain m where mt: "merge_tables ida_all dam_all weather = Inr m"
    and sv: "save e (out a) m = Inr (Saved path merged)"
    by (rule and_then_eq_Inr_E)
  from sv have "merged = m" by (simp add: save_eq_Saved)
  with mt load_dam_folder_distinct [OF dam] load_weather_distinct [OF w]
  have "length (rows merged) = length (rows ida_all)"
    by (simp add: merge_tables_length)
  with ida ne show ?thesis by blast
qed

text \<open>
  C1. Whenever a run writes its table, the intraday table was loaded and is not empty,
  and the written table has exactly as many rows as the intraday table: the day-ahead
  table has one row for each timestamp, the weather table one row for each hour, so each
  left join gives one row for each row on its left. And whenever the three loaders
  return, the intraday table is not empty and the two joins raise nothing, the run goes
  on to write the joined table, which has the rows of the intraday table in number.
\<close>

theorem final_table_has_intraday_row_count:
  "(main e a = Inr (Saved path merged)
      \<longrightarrow> (\<exists>ida_all. load_all_idas e (path_join (results_root a) ''IDAs'') (start_date a) (end_date a)
                         = Inr ida_all
              \<and> \<not> empty ida_all \<and> length (rows merged) = length (rows ida_all)))
   \<and> (load_dam_folder e (path_join (results_root a) ''DAM'') (start_date a) (end_date a) = Inr dam_all
      \<and> load_all_idas e (path_join (results_root a) ''IDAs'') (start_date a) (end_date a) = Inr ida_all
      \<and> \<not> empty ida_all
      \<and> load_weather e (weather_csv a) = Inr weather
      \<and> merge_tables ida_all dam_all weather = Inr joined
      \<longrightarrow> main e a = save e (out a) joined \<and> length (rows joined) = length (rows ida_all))"
proof (intro conjI impI; (elim conjE)?)
  assume "main e a = Inr (Saved path merged)"
  then show "\<exists>ida_all. load_all_idas e (path_join (results_root a) ''IDAs'') (start_date a) (end_date a)
                         = Inr ida_all
              \<and> \<not> empty ida_all \<and> length (rows merged) = length (rows ida_all)"
    by (rule saved_table_row_count)
next
  assume dam: "load_dam_folder e (path_join (results_root a) ''DAM'') (start_date a) (end_date a) = Inr dam_all"
    and ida: "load_all_idas e (path_join (results_root a) ''IDAs'') (start_date a) (end_date a) = Inr ida_all"
    and ne: "\<not> empty ida_all"
    and w: "load_weather e (weather_csv a) = Inr weather"
    and j: "merge_tables ida_all dam_all weather = Inr joined"
  from dam ida ne w j show "main e a = save e (out a) joined"
    by (simp add: main_def Let_def)
  from j load_dam_folder_distinct [OF dam] load_weather_distinct [OF w]
  show "length (rows joined) = length (rows ida_all)"
    by (rule merge_tables_length)
qed

theorem final_table_has_intraday_row_count_witness:
  "main (demo_env [''20240616_dam.xlsx''] [''20240616_ida.xlsx''] []) demo_args
     = Inr (Saved ''o/idm.csv''
         \<lparr>columns = [(DELIVERY_MTU, Datetime), (''Price'', Number), (AUCTION, Object),
                     (''DAM_MCP'', Number), (''wind'', Number)],
          rows = [[(DELIVERY_MTU, Time 1718496000000000000), (''Price'', Num 70),
                   (AUCTION, Str ''IDA1''), (''DAM_MCP'', Num 51), (''wind'', Num 5)],
                  [(DELIVERY_MTU, Time 1718499600000000000), (''Price'', Num 71),
                   (AUCTION, Str ''IDA1''), (''DAM_MCP'', Num 60), (''wind'', Num 8)]]\<rparr>) \<and>
   (\<exists>ida_all. load_all_idas (demo_env [''20240616_dam.xlsx''] [''20240616_ida.xlsx''] [])
                 (path_join (results_root demo_args) ''IDAs'')
                 (start_date demo_args) (end_date demo_args) = Inr ida_all
      \<and> \<not> empty ida_all \<and> length (rows ida_all) = 2)"
proof -
  have run: "main (demo_env [''20240616_dam.xlsx''] [''20240616_ida.xlsx''] []) demo_args
     = Inr (Saved ''o/idm.csv''
         \<lparr>columns = [(DELIVERY_MTU, Datetime), (''Price'', Number), (AUCTION, Object),
                     (''DAM_MCP'', Number), (''wind'', Number)],
          rows = [[(DELIVERY_MTU, Time 1718496000000000000), (''Price'', Num 70),
                   (AUCTION, Str ''IDA1''), (''DAM_MCP'', Num 51), (''wind'', Num 5)],
                  [(DELIVERY_MTU, Time 1718499600000000000), (''Price'', Num 71),
                   (AUCTION, Str ''IDA1''), (''DAM_MCP'', Num 60), (''wind'', Num 8)]]\<rparr>)"
    by code_simp
  from final_table_has_intraday_row_count [THEN conjunct1, THEN mp, OF run] run show ?thesis
    by auto
qed

section \<open>The weather table has one row for each hour\<close>

text \<open>
  C10. In the table the weather loader returns, the timestamp keys are the starts of
  distinct hours in ascending order, so no key occurs twice, and a left join with it on
  the key has as many rows as the table on its left.
\<close>

theorem weather_keys_unique:
  assumes "load_weather e path = Inr weather"
  shows "distinct (column_cells weather DELIVERY_MTU)
       \<and> (\<exists>hs. distinct hs \<and> sorted hs
              \<and> column_cells weather DELIVERY_MTU = map (\<lambda>h. Time (h * hour_ns)) hs)
       \<and> (\<forall>left merged. merge_left left weather DELIVERY_MTU = Inr merged
             \<longrightarrow> length (rows merged) = length (rows left))"
proof -
  from assms obtain raw where "(case colnames raw of [] \<Rightarrow> Inl IndexError
       | time_col # _ \<Rightarrow> resample_hourly_mean (rename_column time_col DELIVERY_MTU raw)) = Inr weather"
    unfolding load_weather_def by (rule and_then_eq_Inr_E)
  then obtain w' where "resample_hourly_mean w' = Inr weather"
    by (cases "colnames raw") auto
  from resample_hourly_mean_keys [OF this] obtain ts
    where "column_cells weather DELIVERY_MTU = map (\<lambda>x. Time (x * hour_ns)) (hour_bins ts)" ..
  moreover have "sorted (hour_bins ts)"
    by (simp add: hour_bins_def)
  ultimately have grid: "\<exists>hs. distinct hs \<and> sorted hs
      \<and> column_cells weather DELIVERY_MTU = map (\<lambda>h. Time (h * hour_ns)) hs"
    using distinct_hour_bins by blast
  have d: "distinct (column_cells weather DELIVERY_MTU)"
    using assms by (rule load_weather_distinct)
  with grid show ?thesis
    by (auto dest: merge_left_length)
qed

theorem weather_keys_unique_witness:
  "load_weather (demo_env [] [] []) ''w.csv''
     = Inr \<lparr>columns = [(DELIVERY_MTU, Datetime), (''wind'', Number)],
            rows = [[(DELIVERY_MTU, Time 1718496000000000000), (''wind'', Num 5)],
                    [(DELIVERY_MTU, Time 1718499600000000000), (''wind'', Num 8)]]\<rparr> \<and>
   distinct [Time 1718496000000000000, Time 1718499600000000000]"
proof -
  have w: "load_weather (demo_env [] [] []) ''w.csv''
     = Inr \<lparr>columns = [(DELIVERY_MTU, Datetime), (''wind'', Number)],
            rows = [[(DELIVERY_MTU, Time 1718496000000000000), (''wind'', Num 5)],
                    [(DELIVERY_MTU, Time 1718499600000000000), (''wind'', Num 8)]]\<rparr>"
    by code_simp
  from weather_keys_unique [OF w] w show ?thesis
    by (simp add: column_cells_def)
qed

section \<open>Runs without day-ahead or without intraday data\<close>

lemma empty_DataFrame [simp]: "empty (DataFrame names)"
  by (simp add: empty_def DataFrame_def)

text \<open>
  C8. When the day-ahead folder can be listed and none of its files is selected, the
  day-ahead loader returns the table with the key column alone and no row, and \<open>main\<close>
  is the run that joins the intraday table, as it is, with the weather table.
\<close>

theorem no_day_ahead_file_skips_the_join:
  assumes "listdir e (path_join (results_root a) ''DAM'') = Inr names"
    and "dam_files names (start_date a) (end_date a) = []"
  shows "load_dam_folder e (path_join (results_root a) ''DAM'') (start_date a) (end_date a)
           = Inr (DataFrame [DELIVERY_MTU])
       \<and> colnames (DataFrame [DELIVERY_MTU]) = [DELIVERY_MTU]
       \<and> rows (DataFrame [DELIVERY_MTU]) = []
       \<and> main e a =
           and_then (load_all_idas e (path_join (results_root a) ''IDAs'') (start_date a) (end_date a))
             (\<lambda>ida_all.
                if empty ida_all then Inr (NoData ''No IDA data loaded, cannot build dataset.'')
                else and_then (load_weather e (weather_csv a)) (\<lambda>weather.
                       and_then (merge_left ida_all weather DELIVERY_MTU) (save e (out a))))"
proof -
  from assms have dam: "load_dam_folder e (path_join (results_root a) ''DAM'') (start_date a) (end_date a)
           = Inr (DataFrame [DELIVERY_MTU])"
    by (simp add: load_dam_folder_def dam_aggregate_def)
  have skip: "merge_tables ida_all (DataFrame [DELIVERY_MTU]) weather
                = merge_left ida_all weather DELIVERY_MTU" for ida_all weather
    by (simp add: merge_tables_def)
  have shape: "colnames (DataFrame [DELIVERY_MTU]) = [DELIVERY_MTU]"
    "rows (DataFrame [DELIVERY_MTU]) = []"
    by (simp_all add: DataFrame_def colnames_def)
  from dam shape show ?thesis
    by (simp add: main_def Let_def skip cong: if_cong)
qed

theorem no_day_ahead_file_skips_the_join_witness:
  "listdir (demo_env [''notes.txt''] [''20240616_ida.xlsx''] []) (path_join (results_root demo_args) ''DAM'')
     = Inr [''notes.txt''] \<and>
   dam_files [''notes.txt''] (start_date demo_args) (end_date demo_args) = [] \<and>
   load_dam_folder (demo_env [''notes.txt''] [''20240616_ida.xlsx''] [])
       (path_join (results_root demo_args) ''DAM'') (start_date demo_args) (end_date demo_args)
     = Inr (DataFrame [DELIVERY_MTU]) \<and>
   main (demo_env [''notes.txt''] [''20240616_ida.xlsx''] []) demo_args
     = Inr (Saved ''o/idm.csv''
         \<lparr>columns = [(DELIVERY_MTU, Datetime), (''Price'', Number), (AUCTION, Object),
                     (''wind'', Number)],
          rows = [[(DELIVERY_MTU, Time 1718496000000000000), (''Price'', Num 70),
                   (AUCTION, Str ''IDA1''), (''wind'', Num 5)],
                  [(DELIVERY_MTU, Time 1718499600000000000), (''Price'', Num 71),
                   (AUCTION, Str ''IDA1''), (''wind'', Num 8)]]\<rparr>)"
proof -
  have l: "listdir (demo_env [''notes.txt''] [''20240616_ida.xlsx''] [])
             (path_join (results_root demo_args) ''DAM'') = Inr [''notes.txt'']"
    by code_simp
  have f: "dam_files [''notes.txt''] (start_date demo_args) (end_date demo_args) = []"
    by code_simp
  have run: "main (demo_env [''notes.txt''] [''20240616_ida.xlsx''] []) demo_args
     = Inr (Saved ''o/idm.csv''
         \<lparr>columns = [(DELIVERY_MTU, Datetime), (''Price'', Number), (AUCTION, Object),
                     (''wind'', Number)],
          rows = [[(DELIVERY_MTU, Time 1718496000000000000), (''Price'', Num 70),
                   (AUCTION, Str ''IDA1''), (''wind'', Num 5)],
                  [(DELIVERY_MTU, Time 1718499600000000000), (''Price'', Num 71),
                   (AUCTION, Str ''IDA1''), (''wind'', Num 8)]]\<rparr>)"
    by code_simp
  from no_day_ahead_file_skips_the_join [OF l f] l f run show ?thesis
    by simp
qed

text \<open>
  C4, as the code has it. When the day-ahead loader has returned and the intraday table
  of the three rounds is empty, \<open>main\<close> prints its diagnostic and returns: nothing is
  written and no exception leaves \<open>main\<close>. A round whose loop keeps no table returns the
  empty table, and \<open>load_all_idas\<close> leaves the empty tables out of the concatenation.
  The claim as stated has the run end as a failure; the run of the small example with an
  empty round-1 folder returns instead.
\<close>

theorem empty_intraday_ends_run_without_output:
  "(load_dam_folder e (path_join (results_root a) ''DAM'') (start_date a) (end_date a) = Inr dam_all
      \<and> load_all_idas e (path_join (results_root a) ''IDAs'') (start_date a) (end_date a) = Inr ida_all
      \<and> empty ida_all
      \<longrightarrow> main e a = Inr (NoData ''No IDA data loaded, cannot build dataset.''))
   \<and> (listdir e folder = Inr names
      \<and> ida_loop e folder auction_name first_day last_day (ida_files names first_day last_day) [] = Inr []
      \<longrightarrow> load_ida_folder e folder auction_name first_day last_day = Inr (DataFrame [])
          \<and> empty (DataFrame []))
   \<and> (load_ida_folder e (path_join idas_root ''IDA1'') ''IDA1'' first_day last_day = Inr ida1
      \<and> load_ida_folder e (path_join idas_root ''IDA2'') ''IDA2'' first_day last_day = Inr ida2
      \<and> load_ida_folder e (path_join idas_root ''IDA3'') ''IDA3'' first_day last_day = Inr ida3
      \<longrightarrow> load_all_idas e idas_root first_day last_day
            = Inr (if filter (\<lambda>df. \<not> empty df) [ida1, ida2, ida3] = [] then DataFrame []
                   else pd_concat (filter (\<lambda>df. \<not> empty df) [ida1, ida2, ida3])))"
  by (simp add: main_def Let_def load_ida_folder_def load_all_idas_def)

theorem empty_intraday_ends_run_without_output_witness:
  "load_dam_folder (demo_env [''20240616_dam.xlsx''] [] []) (path_join (results_root demo_args) ''DAM'')
       (start_date demo_args) (end_date demo_args)
     = Inr \<lparr>columns = [(DELIVERY_MTU, Datetime), (''DAM_MCP'', Number)],
            rows = [[(DELIVERY_MTU, Time 1718496000000000000), (''DAM_MCP'', Num 51)],
                    [(DELIVERY_MTU, Time 1718499600000000000), (''DAM_MCP'', Num 60)]]\<rparr> \<and>
   load_all_idas (demo_env [''20240616_dam.xlsx''] [] []) (path_join (results_root demo_args) ''IDAs'')
       (start_date demo_args) (end_date demo_args) = Inr (DataFrame []) \<and>
   main (demo_env [''20240616_dam.xlsx''] [] []) demo_args
     = Inr (NoData ''No IDA data loaded, cannot build dataset.'')"
proof -
  have d: "load_dam_folder (demo_env [''20240616_dam.xlsx''] [] []) (path_join (results_root demo_args) ''DAM'')
       (start_date demo_args) (end_date demo_args)
     = Inr \<lparr>columns = [(DELIVERY_MTU, Datetime), (''DAM_MCP'', Number)],
            rows = [[(DELIVERY_MTU, Time 1718496000000000000), (''DAM_MCP'', Num 51)],
                    [(DELIVERY_MTU, Time 1718499600000000000), (''DAM_MCP'', Num 60)]]\<rparr>"
    by code_simp
  have i: "load_all_idas (demo_env [''20240616_dam.xlsx''] [] []) (path_join (results_root demo_args) ''IDAs'')
       (start_date demo_args) (end_date demo_args) = Inr (DataFrame [])"
    by code_simp
  from empty_intraday_ends_run_without_output
         [of "demo_env [''20240616_dam.xlsx''] [] []" demo_args _ "DataFrame []"] d i
  show ?thesis by simp
qed

theorem empty_intraday_run_returns_normally:
  "load_all_idas (demo_env [''20240616_dam.xlsx''] [] []) ''r/IDAs'' 739053 739251 = Inr (DataFrame []) \<and>
   empty (DataFrame []) \<and>
   \<not> isl (main (demo_env [''20240616_dam.xlsx''] [] []) demo_args)"
  by code_simp

section \<open>Rolling statistics\<close>

lemma length_rows_assign_column:
  "length vals = length (rows df) \<Longrightarrow> length (rows (assign_column c dt vals df)) = length (rows df)"
  by (simp add: assign_column_def)

lemma assign_column_cell:
  assumes "length vals = length (rows df)" and "i < length (rows df)"
  shows "cell_at (rows (assign_column c dt vals df) ! i) c'
           = (if c' = c then vals ! i else cell_at (rows df ! i) c')"
  using assms by (simp add: assign_column_def)

lemma column_cells_assign_column:
  assumes "length vals = length (rows df)"
  shows "column_cells (assign_column c dt vals df) c'
           = (if c' = c then vals else column_cells df c')"
  using assms
  by (auto simp: column_cells_def list_eq_iff_nth_eq length_rows_assign_column assign_column_cell)

lemma length_column_cells [simp]: "length (column_cells df c) = length (rows df)"
  by (simp add: column_cells_def)

lemma length_rolling [simp]: "length (rolling w m stat xs) = length xs"
  by (simp add: rolling_def)

lemma window_first_rows: "i < w \<Longrightarrow> window w xs i = take (Suc i) xs"
  by (simp add: window_def)

lemma rolling_mean_nth:
  "i < length xs \<Longrightarrow> rolling w 1 mean_cell xs ! i = mean_cell (window w xs i)"
  by (simp add: rolling_def mean_cell_def)

lemma rolling_std_nth:
  "i < length xs \<Longrightarrow> rolling w 1 std_cell xs ! i = std_cell (window w xs i)"
  by (simp add: rolling_def std_cell_def Let_def)

lemma mean_cell_Null: "mean_cell cs = Null \<longleftrightarrow> numbers cs = []"
  by (simp add: mean_cell_def Let_def)

lemma std_cell_Null: "std_cell cs = Null \<longleftrightarrow> length (numbers cs) < 2"
  by (simp add: std_cell_def Let_def)

lemma numbers_first: "length (numbers (take (Suc 0) cs)) < 2"
  by (cases cs) (simp_all add: numbers_def split: cell.splits)

lemma two_assigned_columns:
  assumes "length v1 = length (rows df)" and "length v2 = length (rows df)"
    and "c1 \<noteq> c2" and "j < length (rows df)"
  shows "cell_at (rows (assign_column c2 d2 v2 (assign_column c1 d1 v1 df)) ! j) c2 = v2 ! j"
    and "cell_at (rows (assign_column c2 d2 v2 (assign_column c1 d1 v1 df)) ! j) c1 = v1 ! j"
  using assms by (simp_all add: assign_column_cell length_rows_assign_column)

text \<open>
  C5, as the code has it. In the two columns one round of the rolling loop adds, each of
  the first \<open>w\<close> rows holds the mean and the standard deviation of the rows seen so far.
  The mean is missing only where no number has been seen; the standard deviation divides
  by the count less one, so it is missing while fewer than two numbers have been seen,
  and always in the first row. The claim as stated has no missing value in the first
  \<open>w - 1\<close> rows, and fails in the first row of every rolling standard deviation.
\<close>

theorem rolling_statistics_of_first_rows:
  assumes "base \<in> set (colnames df)" and "i < length (rows df)" and "i < w"
  shows "cell_at (rows (roll_step w base df) ! i) (base @ ''__rollmean'' @ str_nat w)
           = mean_cell (take (Suc i) (column_cells df base))
       \<and> cell_at (rows (roll_step w base df) ! i) (base @ ''__rollstd'' @ str_nat w)
           = std_cell (take (Suc i) (column_cells df base))
       \<and> (mean_cell (take (Suc i) (column_cells df base)) = Null
            \<longleftrightarrow> numbers (take (Suc i) (column_cells df base)) = [])
       \<and> (std_cell (take (Suc i) (column_cells df base)) = Null
            \<longleftrightarrow> length (numbers (take (Suc i) (column_cells df base))) < 2)
       \<and> cell_at (rows (roll_step w base df) ! 0) (base @ ''__rollstd'' @ str_nat w) = Null"
proof -
  define std_name where "std_name = base @ ''__rollstd'' @ str_nat w"
  define mean_name where "mean_name = base @ ''__rollmean'' @ str_nat w"
  define col where "col = column_cells df base"
  define sds where "sds = rolling w 1 std_cell col"
  define means where "means = rolling w 1 mean_cell col"
  have names: "std_name \<noteq> mean_name" "std_name \<noteq> base"
    by (simp_all add: std_name_def mean_name_def)
  have lens: "length sds = length (rows df)" "length means = length (rows df)"
    by (simp_all add: sds_def means_def col_def)
  have col1: "column_cells (assign_column std_name Number sds df) base = col"
    using names lens by (simp add: column_cells_assign_column col_def)
  have step: "roll_step w base df
      = assign_column mean_name Number means (assign_column std_name Number sds df)"
  proof -
    have "roll_step w base df
        = assign_column mean_name Number
            (rolling w 1 mean_cell (column_cells (assign_column std_name Number sds df) base))
            (assign_column std_name Number sds df)"
      unfolding roll_step_def Let_def std_name_def mean_name_def sds_def col_def
      using assms(1) by (simp only: if_True)
    then show ?thesis
      by (simp only: col1 means_def)
  qed
  have cellm: "cell_at (rows (roll_step w base df) ! j) mean_name = means ! j"
    and cells: "cell_at (rows (roll_step w base df) ! j) std_name = sds ! j"
    if "j < length (rows df)" for j
    unfolding step using lens names(1) that by (rule two_assigned_columns)+
  have pos: "0 < length (rows df)" using assms(2) by auto
  have w0: "0 < w" using assms(3) by simp
  have "length (numbers (take (Suc 0) col)) < 2"
    by (rule numbers_first)
  then have s0: "std_cell (take (Suc 0) col) = Null"
    by (simp only: std_cell_Null)
  have lcol: "length col = length (rows df)"
    by (simp add: col_def)
  have sds_nth: "sds ! j = std_cell (window w col j)" if "j < length (rows df)" for j
    unfolding sds_def by (rule rolling_std_nth) (simp add: lcol that)
  have means_nth: "means ! j = mean_cell (window w col j)" if "j < length (rows df)" for j
    unfolding means_def by (rule rolling_mean_nth) (simp add: lcol that)
  have "cell_at (rows (roll_step w base df) ! 0) std_name = std_cell (window w col 0)"
    using pos by (simp only: cells sds_nth)
  also have "\<dots> = Null"
    using w0 s0 by (simp only: window_first_rows)
  finally have first: "cell_at (rows (roll_step w base df) ! 0) std_name = Null" .
  have m: "cell_at (rows (roll_step w base df) ! i) mean_name = mean_cell (take (Suc i) col)"
    using assms(2,3) by (simp only: cellm means_nth window_first_rows)
  have sd: "cell_at (rows (roll_step w base df) ! i) std_name = std_cell (take (Suc i) col)"
    using assms(2,3) by (simp only: cells sds_nth window_first_rows)
  from m sd first show ?thesis
    unfolding std_name_def mean_name_def col_def
    by (simp only: mean_cell_Null std_cell_Null simp_thms)
qed

theorem rolling_statistics_of_first_rows_witness:
  "cell_at (rows (roll_step 3 ''AGG__mean__wind_speed_10m'' wind_means) ! 1)
       ''AGG__mean__wind_speed_10m__rollmean3'' = Num 3 \<and>
   cell_at (rows (roll_step 3 ''AGG__mean__wind_speed_10m'' wind_means) ! 1)
       ''AGG__mean__wind_speed_10m__rollstd3'' = Num (sqrt 2) \<and>
   cell_at (rows (roll_step 3 ''AGG__mean__wind_speed_10m'' wind_means) ! 0)
       ''AGG__mean__wind_speed_10m__rollstd3'' = Null"
proof -
  have c: "''AGG__mean__wind_speed_10m'' \<in> set (colnames wind_means)"
    by (simp add: wind_means_def colnames_def)
  have l: "1 < length (rows wind_means)"
    by (simp add: wind_means_def)
  have w: "(1 :: nat) < 3"
    by simp
  have n: "str_nat 3 = ''3''"
    by code_simp
  have col: "column_cells wind_means ''AGG__mean__wind_speed_10m'' = [Num 2, Num 4, Num 6]"
    by (simp add: wind_means_def column_cells_def)
  from rolling_statistics_of_first_rows [OF c l w] show ?thesis
    by (simp add: n col mean_cell_def std_cell_def numbers_def power2_eq_square)
qed

lemma str_nat_3: "str_nat 3 = ''3''"
  by code_simp

lemma str_nat_6: "str_nat 6 = ''6''"
  by code_simp

lemma wind_demo_deltas:
  "foldl (\<lambda>df base. add_delta base df)
     (add_is_day
        (foldl (\<lambda>df var. add_aggregates var df) (table wind_demo)
           [''wind_speed_10m'', ''wind_gusts_10m'', ''shortwave_radiation'',
            ''cloud_cover'', ''precipitation'']))
     [''AGG__mean__wind_speed_10m'', ''AGG__mean__shortwave_radiation'', ''AGG__mean__cloud_cover'']
   = \<lparr>columns = [(''A__wind_speed_10m'', Number), (''B__wind_speed_10m'', Number),
                  (''AGG__mean__wind_speed_10m'', Number), (''AGG__median__wind_speed_10m'', Number),
                  (''AGG__mean__wind_speed_10m__delta1'', Number)],
       rows = [[(''AGG__mean__wind_speed_10m__delta1'', Null), (''AGG__median__wind_speed_10m'', Num 2),
                (''AGG__mean__wind_speed_10m'', Num 2),
                (''A__wind_speed_10m'', Num 1), (''B__wind_speed_10m'', Num 3)],
               [(''AGG__mean__wind_speed_10m__delta1'', Num 2), (''AGG__median__wind_speed_10m'', Num 4),
                (''AGG__mean__wind_speed_10m'', Num 4),
                (''A__wind_speed_10m'', Num 3), (''B__wind_speed_10m'', Num 5)],
               [(''AGG__mean__wind_speed_10m__delta1'', Num 2), (''AGG__median__wind_speed_10m'', Num 6),
                (''AGG__mean__wind_speed_10m'', Num 6),
                (''A__wind_speed_10m'', Num 5), (''B__wind_speed_10m'', Num 7)]]\<rparr>"
  by code_simp

theorem first_rolling_std_is_missing:
  "(0 :: nat) < 3 - 1 \<and>
   column_cells (table (build_feature_block wind_demo ''1H'' [3, 6])) ''AGG__mean__wind_speed_10m''
     = [Num 2, Num 4, Num 6] \<and>
   cell_at (rows (table (build_feature_block wind_demo ''1H'' [3, 6])) ! 0)
       ''AGG__mean__wind_speed_10m__rollstd3'' = Null"
  unfolding build_feature_block_def Let_def wind_demo_deltas
  by (simp add: roll_step_def add_calendar_def colnames_def assign_column_def column_cells_def
        rolling_def window_def std_cell_def mean_cell_def numbers_def str_nat_3 str_nat_6 upt_rec wind_demo_def)

section \<open>The aggregated day-ahead table\<close>

lemma cell_at_map_pairs:
  "cell_at (map (\<lambda>c. (c, h c)) names) c = (if c \<in> set names then h c else Null)"
  by (induction names) (auto simp: cell_at_def)

lemma set_first_seen [simp]: "set (first_seen xs) = set xs"
  by (simp add: first_seen_def)

lemma distinct_first_seen [simp]: "distinct (first_seen xs)"
  by (simp add: first_seen_def)

lemma colnames_pd_concat: "colnames (pd_concat fs) = first_seen (concat (map colnames fs))"
  by (simp add: pd_concat_def colnames_def Let_def comp_def)

lemma colnames_add_prefix:
  "colnames (add_prefix df)
     = map (\<lambda>c. if c \<noteq> DELIVERY_MTU then ''DAM_'' @ c else c) (colnames df)"
  by (simp add: add_prefix_def colnames_def Let_def comp_def case_prod_unfold)

lemma inj_dam_prefix: "inj (\<lambda>c. if c \<noteq> DELIVERY_MTU then ''DAM_'' @ c else c)"
  by (auto simp: inj_def)

lemma distinct_colnames_dam: "distinct (colnames (add_prefix (pd_concat fs)))"
proof -
  have "inj_on (\<lambda>c. if c \<noteq> DELIVERY_MTU then ''DAM_'' @ c else c) A" for A
    using inj_dam_prefix by (rule inj_on_subset) simp
  then show ?thesis
    by (simp only: colnames_add_prefix colnames_pd_concat distinct_map distinct_first_seen simp_thms)
qed

lemma numeric_cols_iff: "c \<in> set (numeric_cols df) \<longleftrightarrow> (c, Number) \<in> set (columns df)"
  by (force simp: numeric_cols_def)

lemma unique_dtype:
  assumes "distinct (colnames df)" and "(c, d1) \<in> set (columns df)" and "(c, d2) \<in> set (columns df)"
  shows "d1 = d2"
  using assms unfolding colnames_def by (rule eq_key_imp_eq_value)

lemma set_times: "set (times cs) = {t. Time t \<in> set cs}"
  by (induction cs) (auto simp: times_def split: cell.splits)

lemma set_group_keys:
  "set (group_keys dam) = {k. \<exists>r \<in> set (rows dam). cell_at r DELIVERY_MTU = Time k}"
proof -
  have "Time k \<in> set (column_cells dam DELIVERY_MTU)
          \<longleftrightarrow> (\<exists>r \<in> set (rows dam). cell_at r DELIVERY_MTU = Time k)" for k
    unfolding column_cells_def by (simp only: set_map image_iff) metis
  then show ?thesis
    by (simp add: group_keys_def set_times)
qed

lemma mean_cell_Nums:
  "vs \<noteq> [] \<Longrightarrow> mean_cell (map Num vs) = Num (sum_list vs / real (length vs))"
proof -
  have "numbers (map Num vs) = vs"
    by (induction vs) (simp_all add: numbers_def)
  then show "vs \<noteq> [] \<Longrightarrow> ?thesis"
    by (simp add: mean_cell_def)
qed

lemma groupby_mean_row:
  assumes g: "groupby_mean dam cols = Inr g" and r: "r \<in> set (rows g)"
    and k: "cell_at r DELIVERY_MTU = Time k" and c: "c \<in> set cols" "c \<noteq> DELIVERY_MTU"
  shows "cell_at r c = mean_cell (map (\<lambda>r'. cell_at r' c) (group_rows dam k))"
    and "k \<in> set (group_keys dam)"
proof -
  from g r obtain k' where k': "k' \<in> set (group_keys dam)"
    and req: "r = (DELIVERY_MTU, Time k')
                # map (\<lambda>c. (c, mean_cell (map (\<lambda>r. cell_at r c) (group_rows dam k')))) cols"
    by (auto simp: groupby_mean_def split: if_splits)
  from req k have "k' = k"
    by (simp add: cell_at_def)
  with k' show "k \<in> set (group_keys dam)" by simp
  from req c \<open>k' = k\<close> show "cell_at r c = mean_cell (map (\<lambda>r'. cell_at r' c) (group_rows dam k))"
    by (simp add: cell_at_def cell_at_map_pairs [unfolded cell_at_def])
qed

lemma groupby_mean_colnames:
  "groupby_mean dam cols = Inr g \<Longrightarrow> colnames g = DELIVERY_MTU # cols"
  by (auto simp: groupby_mean_def colnames_def comp_def split: if_splits)

text \<open>
  C2. Let the day-ahead loop have collected at least one table, and let \<open>dam\<close> be the
  collected rows under their prefixed names. The loader's table has the key column and
  the numeric columns of \<open>dam\<close> and no other column: a column of another dtype is absent.
  It has one row for each timestamp of \<open>dam\<close>, and in that row each numeric field is the
  mean of the field over the rows of \<open>dam\<close> with that timestamp, missing values left
  out; where these rows all hold a number, it is their sum divided by their count.
\<close>

theorem day_ahead_aggregate_is_mean:
  assumes ls: "listdir e dam_folder = Inr names"
    and loop: "dam_loop e dam_folder first_day last_day (dam_files names first_day last_day) []
                 = Inr all_frames"
    and ne: "all_frames \<noteq> []"
    and ld: "load_dam_folder e dam_folder first_day last_day = Inr g"
    and dam: "dam = add_prefix (pd_concat all_frames)"
  shows "colnames g = DELIVERY_MTU # numeric_cols dam
       \<and> (\<forall>c dt. (c, dt) \<in> set (columns dam) \<and> dt \<noteq> Number \<and> c \<noteq> DELIVERY_MTU
             \<longrightarrow> c \<notin> set (colnames g))
       \<and> column_cells g DELIVERY_MTU = map Time (group_keys dam)
       \<and> distinct (group_keys dam)
       \<and> set (group_keys dam) = {k. \<exists>r \<in> set (rows dam). cell_at r DELIVERY_MTU = Time k}
       \<and> (\<forall>r k c. r \<in> set (rows g) \<and> cell_at r DELIVERY_MTU = Time k
               \<and> c \<in> set (numeric_cols dam) \<and> c \<noteq> DELIVERY_MTU
             \<longrightarrow> cell_at r c = mean_cell (map (\<lambda>r'. cell_at r' c) (group_rows dam k))
               \<and> (\<forall>vs. vs \<noteq> [] \<and> map (\<lambda>r'. cell_at r' c) (group_rows dam k) = map Num vs
                     \<longrightarrow> cell_at r c = Num (sum_list vs / real (length vs))))"
proof -
  from ld ls loop ne have g: "groupby_mean dam (numeric_cols dam) = Inr g"
    by (simp add: load_dam_folder_def dam_aggregate_def Let_def dam)
  have names: "colnames g = DELIVERY_MTU # numeric_cols dam"
    using g by (rule groupby_mean_colnames)
  have distinct_dam: "distinct (colnames dam)"
    unfolding dam by (rule distinct_colnames_dam)
  have dropped: "c \<notin> set (colnames g)"
    if "(c, dt) \<in> set (columns dam)" "dt \<noteq> Number" "c \<noteq> DELIVERY_MTU" for c dt
  proof
    assume "c \<in> set (colnames g)"
    with names that(3) have "(c, Number) \<in> set (columns dam)"
      by (simp add: numeric_cols_iff)
    then have "dt = Number"
      by (rule unique_dtype [OF distinct_dam that(1)])
    with that(2) show False by simp
  qed
  have cells: "cell_at r c = mean_cell (map (\<lambda>r'. cell_at r' c) (group_rows dam k))
       \<and> (\<forall>vs. vs \<noteq> [] \<and> map (\<lambda>r'. cell_at r' c) (group_rows dam k) = map Num vs
             \<longrightarrow> cell_at r c = Num (sum_list vs / real (length vs)))"
    if "r \<in> set (rows g)" "cell_at r DELIVERY_MTU = Time k"
       "c \<in> set (numeric_cols dam)" "c \<noteq> DELIVERY_MTU" for r k c
    using groupby_mean_row(1) [OF g that] by (simp add: mean_cell_Nums)
  from names dropped cells show ?thesis
    by (simp only: groupby_mean_keys [OF g] distinct_group_keys set_group_keys simp_thms) blast
qed

theorem day_ahead_aggregate_is_mean_witness:
  "load_dam_folder (demo_env [''20240616_dam.xlsx''] [] []) ''r/DAM'' 739053 739251
     = Inr \<lparr>columns = [(DELIVERY_MTU, Datetime), (''DAM_MCP'', Number)],
            rows = [[(DELIVERY_MTU, Time t0), (''DAM_MCP'', Num 51)],
                    [(DELIVERY_MTU, Time t1), (''DAM_MCP'', Num 60)]]\<rparr> \<and>
   columns (add_prefix (pd_concat
       [clean_frame (demo_env [''20240616_dam.xlsx''] [] []) 739053 739251 dam_sheet]))
     = [(DELIVERY_MTU, Datetime), (''DAM_MCP'', Number), (''DAM_ZONE'', Object)] \<and>
   map (\<lambda>r. cell_at r ''DAM_MCP'')
     (group_rows (add_prefix (pd_concat
        [clean_frame (demo_env [''20240616_dam.xlsx''] [] []) 739053 739251 dam_sheet])) t0)
     = [Num 50, Num 52] \<and>
   mean_cell (map (\<lambda>r. cell_at r ''DAM_MCP'')
     (group_rows (add_prefix (pd_concat
        [clean_frame (demo_env [''20240616_dam.xlsx''] [] []) 739053 739251 dam_sheet])) t0))
     = Num 51"
proof -
  let ?e = "demo_env [''20240616_dam.xlsx''] [] []"
  let ?g = "\<lparr>columns = [(DELIVERY_MTU, Datetime), (''DAM_MCP'', Number)],
            rows = [[(DELIVERY_MTU, Time t0), (''DAM_MCP'', Num 51)],
                    [(DELIVERY_MTU, Time t1), (''DAM_MCP'', Num 60)]]\<rparr>"
  let ?dam = "add_prefix (pd_concat [clean_frame ?e 739053 739251 dam_sheet])"
  have ls: "listdir ?e ''r/DAM'' = Inr [''20240616_dam.xlsx'']"
    by code_simp
  have loop: "dam_loop ?e ''r/DAM'' 739053 739251 (dam_files [''20240616_dam.xlsx''] 739053 739251) []
                = Inr [clean_frame ?e 739053 739251 dam_sheet]"
    by code_simp
  have ne: "[clean_frame ?e 739053 739251 dam_sheet] \<noteq> []"
    by simp
  have ld: "load_dam_folder ?e ''r/DAM'' 739053 739251 = Inr ?g"
    by code_simp
  have cols: "columns ?dam = [(DELIVERY_MTU, Datetime), (''DAM_MCP'', Number), (''DAM_ZONE'', Object)]"
    by code_simp
  have grp: "map (\<lambda>r. cell_at r ''DAM_MCP'') (group_rows ?dam t0) = [Num 50, Num 52]"
    by code_simp
  have r: "[(DELIVERY_MTU, Time t0), (''DAM_MCP'', Num 51)] \<in> set (rows ?g)"
    by simp
  have k: "cell_at [(DELIVERY_MTU, Time t0), (''DAM_MCP'', Num 51)] DELIVERY_MTU = Time t0"
    by (simp add: cell_at_def)
  have c: "''DAM_MCP'' \<in> set (numeric_cols ?dam)"
    by (simp add: numeric_cols_def cols)
  from day_ahead_aggregate_is_mean [OF ls loop ne ld refl] r k c
  have "cell_at [(DELIVERY_MTU, Time t0), (''DAM_MCP'', Num 51)] ''DAM_MCP''
          = mean_cell (map (\<lambda>r. cell_at r ''DAM_MCP'') (group_rows ?dam t0))"
    by blast
  then have "mean_cell (map (\<lambda>r. cell_at r ''DAM_MCP'') (group_rows ?dam t0)) = Num 51"
    by (simp add: cell_at_def)
  with ld cols grp show ?thesis by simp
qed

section \<open>The intraday table\<close>


lemma colnames_filter_rows [simp]: "colnames (filter_rows p df) = colnames df"
  by (simp add: filter_rows_def colnames_def)

lemma colnames_dropna [simp]: "colnames (dropna c df) = colnames df"
  by (simp add: dropna_def)





















end
